theory Spec2Isabelle
  imports Complex_Main
begin

section \<open>Configuration (config.py)\<close>

definition FACE_RECOGNITION_TOLERANCE :: real where
  "FACE_RECOGNITION_TOLERANCE = 98 / 100"

definition STATUS_PRESENT :: string where
  "STATUS_PRESENT = ''Present''"

definition STATUS_ABSENT :: string where
  "STATUS_ABSENT = ''Absent''"

definition STATUS_LATE :: string where
  "STATUS_LATE = ''Late''"

definition STATUS_NA :: string where
  "STATUS_NA = ''N/A''"

definition STATUS_UNAUTHORIZED_DEPARTURE :: string where
  "STATUS_UNAUTHORIZED_DEPARTURE = ''Unauthorized Departure''"

definition EARLY_ARRIVAL_MARGIN :: int where
  "EARLY_ARRIVAL_MARGIN = 5"

definition LATE_THRESHOLD :: int where
  "LATE_THRESHOLD = 15"

definition EARLY_DEPARTURE_THRESHOLD :: int where
  "EARLY_DEPARTURE_THRESHOLD = 15"

definition SECOND_CHECKIN_WINDOW :: int where
  "SECOND_CHECKIN_WINDOW = 5"


section \<open>Clock times\<close>

text \<open>
  A \<^verbatim>\<open>datetime.time\<close> value is modelled by its number of seconds since midnight.
  The schedule strings of a course (\<^verbatim>\<open>"%H:%M"\<close>) and the custom end time
  (\<^verbatim>\<open>"%H:%M:%S"\<close>) enter the model as the values \<^verbatim>\<open>strptime\<close> gives for them;
  the current time has whole seconds, since the code formats it with \<^verbatim>\<open>"%H:%M:%S"\<close>
  and parses it back.

  The code computes every threshold as
  \<^verbatim>\<open>(datetime.combine(date.today(), t) +/- timedelta(minutes=m)).time()\<close>:
  the shift is made on the date line and \<^verbatim>\<open>.time()\<close> keeps the time of day only, so an
  offset that crosses midnight wraps around the 24-hour clock.
\<close>

type_synonym clock = int

definition hm :: "int \<Rightarrow> int \<Rightarrow> clock" where
  "hm h m = 3600 * h + 60 * m"

definition minus_minutes :: "clock \<Rightarrow> int \<Rightarrow> clock" where
  "minus_minutes t m = (t - 60 * m) mod 86400"

definition plus_minutes :: "clock \<Rightarrow> int \<Rightarrow> clock" where
  "plus_minutes t m = (t + 60 * m) mod 86400"


section \<open>The persistent tables (database.py)\<close>

text \<open>
  Rows of the tables the attendance logic reads and writes. The surrogate
  \<^verbatim>\<open>id INTEGER PRIMARY KEY AUTOINCREMENT\<close> columns and the columns no decision reads
  (course code, capacity, ...) are left out. A nullable column is an \<open>option\<close>.
\<close>

type_synonym student_id = string
type_synonym course_id = int
type_synonym date = string

record attendance_row =
  student_id :: student_id
  course_id :: course_id
  date :: date
  time :: "clock option"
  second_time :: "clock option"
  status :: string
  is_cancelled :: int

record course =
  reference_number :: course_id
  start_time :: clock
  end_time :: clock

record database =
  users :: "(student_id \<times> string) list"
  courses :: "course list"
  enrollments :: "(course_id \<times> student_id) list"
  lecture_custom_times :: "(course_id \<times> date \<times> clock) list"
  attendance :: "attendance_row list"

text \<open>\<^verbatim>\<open>WHERE student_id = ? AND course_id = ? AND date = ?\<close>\<close>

definition same_key :: "student_id \<Rightarrow> course_id \<Rightarrow> date \<Rightarrow> attendance_row \<Rightarrow> bool" where
  "same_key sid cid d r = (student_id r = sid \<and> course_id r = cid \<and> date r = d)"

text \<open>The \<^verbatim>\<open>SELECT ... fetchone()\<close> of the attendance functions: the first matching row.\<close>

definition select_attendance ::
  "attendance_row list \<Rightarrow> student_id \<Rightarrow> course_id \<Rightarrow> date \<Rightarrow> attendance_row option" where
  "select_attendance tbl sid cid d = find (same_key sid cid d) tbl"

text \<open>
  \<^verbatim>\<open>INSERT INTO attendance\<close>: the table has \<^verbatim>\<open>UNIQUE(student_id, course_id, date)\<close>, and
  a second row with the same key raises \<^verbatim>\<open>sqlite3.IntegrityError\<close> (the value \<open>None\<close>).
\<close>

definition insert_attendance :: "attendance_row list \<Rightarrow> attendance_row \<Rightarrow> attendance_row list option" where
  "insert_attendance tbl r =
     (if list_ex (same_key (student_id r) (course_id r) (date r)) tbl then None
      else Some (tbl @ [r]))"

text \<open>\<^verbatim>\<open>UPDATE attendance SET ... WHERE student_id = ? AND course_id = ? AND date = ?\<close>\<close>

definition update_attendance ::
  "attendance_row list \<Rightarrow> student_id \<Rightarrow> course_id \<Rightarrow> date \<Rightarrow>
   (attendance_row \<Rightarrow> attendance_row) \<Rightarrow> attendance_row list" where
  "update_attendance tbl sid cid d f = map (\<lambda>r. if same_key sid cid d r then f r else r) tbl"

definition get_course_by_id :: "database \<Rightarrow> course_id \<Rightarrow> course option" where
  "get_course_by_id db ref = find (\<lambda>c. reference_number c = ref) (courses db)"

definition get_custom_end_time :: "database \<Rightarrow> course_id \<Rightarrow> date \<Rightarrow> clock option" where
  "get_custom_end_time db cid d =
     map_option (\<lambda>(c, d', t). t) (find (\<lambda>(c, d', t). c = cid \<and> d' = d) (lecture_custom_times db))"

definition is_student_enrolled_in_course :: "database \<Rightarrow> student_id \<Rightarrow> course_id \<Rightarrow> bool" where
  "is_student_enrolled_in_course db sid cid =
     (length (filter (\<lambda>(c, s). s = sid \<and> c = cid) (enrollments db)) > 0)"

text \<open>
  \<^verbatim>\<open>SELECT u.id, ... FROM users u JOIN enrollments e ON u.id = e.student_id WHERE e.course_id = ?\<close>;
  only the id of each row is used by the callers modelled here.
\<close>

definition get_enrolled_students :: "database \<Rightarrow> course_id \<Rightarrow> student_id list" where
  "get_enrolled_students db cid =
     map snd (filter (\<lambda>(c, s). c = cid \<and> s \<in> set (map fst (users db))) (enrollments db))"

text \<open>
  The end time every timing decision uses: the custom end time of the date when there is
  one, the scheduled end time otherwise.
\<close>

definition effective_end :: "database \<Rightarrow> course_id \<Rightarrow> course \<Rightarrow> date \<Rightarrow> clock" where
  "effective_end db cid c today =
     (case get_custom_end_time db cid today of
        Some t \<Rightarrow> t
      | None \<Rightarrow> end_time c)"


subsection \<open>mark\_attendance\<close>

text \<open>
  Every function returns its Boolean result together with the database after the call.
  An exception inside the \<^verbatim>\<open>try\<close> block is caught and turned into \<open>False\<close>.
\<close>

definition mark_attendance ::
  "database \<Rightarrow> student_id \<Rightarrow> course_id \<Rightarrow> date \<Rightarrow> clock \<Rightarrow> string \<Rightarrow> bool \<times> database" where
  "mark_attendance db sid cid d t st =
     (case select_attendance (attendance db) sid cid d of
        Some result \<Rightarrow>
          if is_cancelled result = 1 then (False, db)
          else if second_time result = None then
            (True, db\<lparr>attendance :=
               update_attendance (attendance db) sid cid d
                 (\<lambda>r. r\<lparr>second_time := Some t, status := st\<rparr>)\<rparr>)
          else (False, db)
      | None \<Rightarrow>
          (case insert_attendance (attendance db)
                  \<lparr>student_id = sid, course_id = cid, date = d, time = Some t,
                   second_time = None, status = st, is_cancelled = 0\<rparr> of
             None \<Rightarrow> (False, db)
           | Some tbl \<Rightarrow> (True, db\<lparr>attendance := tbl\<rparr>)))"


subsection \<open>auto\_mark\_attendance\<close>

text \<open>
  \<open>today\<close> and \<open>current_time\<close> are what \<^verbatim>\<open>datetime.datetime.now()\<close> gives at the call.
\<close>

definition auto_mark_attendance ::
  "database \<Rightarrow> date \<Rightarrow> clock \<Rightarrow> student_id \<Rightarrow> course_id \<Rightarrow> bool \<times> database" where
  "auto_mark_attendance db today current_time sid cid =
     (case get_course_by_id db cid of
        None \<Rightarrow> (False, db)
      | Some c \<Rightarrow>
          let course_start = start_time c;
              course_end = effective_end db cid c today;
              early_arrival = minus_minutes course_start EARLY_ARRIVAL_MARGIN;
              late_threshold = plus_minutes course_start LATE_THRESHOLD
          in
          (case select_attendance (attendance db) sid cid today of
             Some result \<Rightarrow>
               if is_cancelled result = 1 then (False, db)
               else
                 let second_checkin_start = minus_minutes course_end SECOND_CHECKIN_WINDOW;
                     second_checkin_end = plus_minutes course_end SECOND_CHECKIN_WINDOW
                 in
                 if second_time result = None \<and> second_checkin_start \<le> current_time
                    \<and> current_time \<le> second_checkin_end
                 then (True, db\<lparr>attendance :=
                         update_attendance (attendance db) sid cid today
                           (\<lambda>r. r\<lparr>second_time := Some current_time\<rparr>)\<rparr>)
                 else (False, db)
           | None \<Rightarrow>
               let early_departure = minus_minutes course_end 10 in
               if early_arrival \<le> current_time \<and> current_time \<le> early_departure then
                 let st = (if current_time > late_threshold then STATUS_LATE else STATUS_PRESENT) in
                 (case insert_attendance (attendance db)
                         \<lparr>student_id = sid, course_id = cid, date = today,
                          time = Some current_time, second_time = None, status = st,
                          is_cancelled = 0\<rparr> of
                    None \<Rightarrow> (False, db)
                  | Some tbl \<Rightarrow> (True, db\<lparr>attendance := tbl\<rparr>))
               else (False, db)))"


subsection \<open>update\_partial\_attendance\<close>

text \<open>The end-of-day batch: one \<^verbatim>\<open>UPDATE\<close> statement over the attendance table.\<close>

definition partial_row :: "date \<Rightarrow> attendance_row \<Rightarrow> bool" where
  "partial_row today r =
     (date r = today \<and> time r \<noteq> None \<and> second_time r = None
      \<and> status r = STATUS_PRESENT \<and> is_cancelled r = 0)"

definition update_partial_attendance :: "database \<Rightarrow> date \<Rightarrow> bool \<times> database" where
  "update_partial_attendance db today =
     (True, db\<lparr>attendance :=
        map (\<lambda>r. if partial_row today r then r\<lparr>status := STATUS_UNAUTHORIZED_DEPARTURE\<rparr> else r)
          (attendance db)\<rparr>)"


subsection \<open>cancel\_lecture\<close>

text \<open>
  The loop that inserts one cancelled row per enrolled student. An insert that raises
  leaves the loop through the \<^verbatim>\<open>except\<close> clause: the function returns \<open>False\<close>, and the
  rows inserted before it stay in the connection (nothing rolls them back).
\<close>

fun insert_cancelled_rows ::
  "attendance_row list \<Rightarrow> course_id \<Rightarrow> date \<Rightarrow> student_id list \<Rightarrow> bool \<times> attendance_row list" where
  "insert_cancelled_rows tbl cid d [] = (True, tbl)"
| "insert_cancelled_rows tbl cid d (s # ss) =
     (case insert_attendance tbl
             \<lparr>student_id = s, course_id = cid, date = d, time = None, second_time = None,
              status = STATUS_NA, is_cancelled = 1\<rparr> of
        None \<Rightarrow> (False, tbl)
      | Some tbl' \<Rightarrow> insert_cancelled_rows tbl' cid d ss)"

definition cancel_lecture :: "database \<Rightarrow> course_id \<Rightarrow> date \<Rightarrow> bool \<times> database" where
  "cancel_lecture db cid d =
     (let already_cancelled =
            (length (filter (\<lambda>r. course_id r = cid \<and> date r = d \<and> is_cancelled r = 1)
                       (attendance db)) > 0)
      in
      if already_cancelled then (True, db)
      else
        let count = length (filter (\<lambda>r. course_id r = cid \<and> date r = d) (attendance db)) in
        if count > 0 then
          (True, db\<lparr>attendance :=
             map (\<lambda>r. if course_id r = cid \<and> date r = d
                       then r\<lparr>status := STATUS_NA, is_cancelled := 1\<rparr> else r)
               (attendance db)\<rparr>)
        else
          (case insert_cancelled_rows (attendance db) cid d (get_enrolled_students db cid) of
             (ok, tbl) \<Rightarrow> (ok, db\<lparr>attendance := tbl\<rparr>)))"


section \<open>Marking attendance from recognition results (vit\_face\_recognition.py)\<close>

text \<open>
  The dictionaries the recognition code passes around, as records: an entry of
  \<^verbatim>\<open>recognition_results['recognized']\<close>, an entry of
  \<^verbatim>\<open>recognition_results['unrecognized']\<close>, and an entry of the list
  \<^verbatim>\<open>mark_attendance_for_recognized_students\<close> returns.
\<close>

type_synonym location = "int \<times> int \<times> int \<times> int"

record recognized_student =
  rs_student_id :: student_id
  rs_name :: string
  rs_confidence :: real
  rs_location :: location

record unrecognized_face =
  uf_location :: location
  uf_message :: string

record attendance_result =
  ar_student_id :: student_id
  ar_name :: string
  success :: bool
  message :: string

text \<open>
  One round of the loop over the recognized students. The thresholds are computed once,
  before the loop; \<open>early_departure\<close> is computed there as well, from
  \<open>EARLY_DEPARTURE_THRESHOLD\<close>, and no branch reads it. The \<^verbatim>\<open>INSERT\<close> of this function
  runs only when the \<^verbatim>\<open>SELECT\<close> before it found no row with the key, so it cannot
  violate the uniqueness constraint (lemma \<open>insert_attendance_fresh\<close> below); it is
  written as the append it always is.
\<close>

definition mark_recognized_student ::
  "date \<Rightarrow> clock \<Rightarrow> course_id \<Rightarrow> clock \<Rightarrow> clock \<Rightarrow> clock \<Rightarrow> clock \<Rightarrow> clock \<Rightarrow>
   database \<Rightarrow> recognized_student \<Rightarrow> attendance_result \<times> database" where
  "mark_recognized_student today current_time ref course_end early_arrival
       late_threshold second_checkin_start second_checkin_end db student =
     (let sid = rs_student_id student; name = rs_name student in
      if is_student_enrolled_in_course db sid ref then
        (case select_attendance (attendance db) sid ref today of
           Some result \<Rightarrow>
             if is_cancelled result = 1 then
               (\<lparr>ar_student_id = sid, ar_name = name, success = False,
                 message = ''Class cancelled''\<rparr>, db)
             else if second_time result = None \<and> second_checkin_start \<le> current_time
                     \<and> current_time \<le> second_checkin_end then
               (\<lparr>ar_student_id = sid, ar_name = name, success = True,
                 message = ''Second check-in recorded''\<rparr>,
                db\<lparr>attendance :=
                     update_attendance (attendance db) sid ref today
                       (\<lambda>r. r\<lparr>second_time := Some current_time\<rparr>)\<rparr>)
             else
               (\<lparr>ar_student_id = sid, ar_name = name, success = False,
                 message = ''Already checked in''\<rparr>, db)
         | None \<Rightarrow>
             if current_time < early_arrival then
               (\<lparr>ar_student_id = sid, ar_name = name, success = False,
                 message = ''Too early''\<rparr>, db)
             else if current_time > course_end then
               (\<lparr>ar_student_id = sid, ar_name = name, success = False,
                 message = ''Class ended''\<rparr>, db)
             else
               let st = (if current_time \<le> late_threshold then STATUS_PRESENT else STATUS_LATE) in
               (\<lparr>ar_student_id = sid, ar_name = name, success = True,
                 message = ''Marked as '' @ st\<rparr>,
                db\<lparr>attendance := attendance db @
                     [\<lparr>student_id = sid, course_id = ref, date = today,
                       time = Some current_time, second_time = None, status = st,
                       is_cancelled = 0\<rparr>]\<rparr>))
      else
        (\<lparr>ar_student_id = sid, ar_name = name, success = False,
          message = ''Not enrolled in this course''\<rparr>, db))"

fun mark_recognized_students ::
  "(database \<Rightarrow> recognized_student \<Rightarrow> attendance_result \<times> database) \<Rightarrow>
   database \<Rightarrow> recognized_student list \<Rightarrow> attendance_result list \<times> database" where
  "mark_recognized_students step db [] = ([], db)"
| "mark_recognized_students step db (student # rest) =
     (case step db student of
        (res, db') \<Rightarrow>
          (case mark_recognized_students step db' rest of
             (results, db'') \<Rightarrow> (res # results, db'')))"

definition mark_attendance_for_recognized_students ::
  "database \<Rightarrow> date \<Rightarrow> clock \<Rightarrow> recognized_student list \<Rightarrow> course_id \<Rightarrow>
   attendance_result list \<times> database" where
  "mark_attendance_for_recognized_students db today current_time recognized ref =
     (case get_course_by_id db ref of
        None \<Rightarrow> ([], db)
      | Some c \<Rightarrow>
          let course_start = start_time c;
              course_end = effective_end db ref c today;
              early_arrival = minus_minutes course_start EARLY_ARRIVAL_MARGIN;
              late_threshold = plus_minutes course_start LATE_THRESHOLD;
              early_departure = minus_minutes course_end EARLY_DEPARTURE_THRESHOLD;
              second_checkin_start = minus_minutes course_end SECOND_CHECKIN_WINDOW;
              second_checkin_end = plus_minutes course_end SECOND_CHECKIN_WINDOW
          in mark_recognized_students
               (mark_recognized_student today current_time ref course_end
                  early_arrival late_threshold second_checkin_start second_checkin_end)
               db recognized)"


section \<open>Liveness detection (class LivenessDetector)\<close>

text \<open>
  Numbers that are floating-point in the program are real numbers here: rounding and
  not-a-number values are outside the model. The image operations (the eye aspect ratio
  of a landmark set, the spectrum test of \<^verbatim>\<open>analyze_texture\<close>, the face detector, and
  the transformer that turns a face region into a normalised encoding) are parameters,
  collected in one record.
\<close>

type_synonym face_rect = "int \<times> int \<times> int \<times> int"

record ('img, 'lm) vision =
  calculate_eye_aspect_ratio :: "'lm \<Rightarrow> real"
  analyze_texture :: "'img \<Rightarrow> bool"
  detectMultiScale :: "'img \<Rightarrow> face_rect list"
  encode_face_region :: "'img \<Rightarrow> face_rect \<Rightarrow> real list"

text \<open>
  The attributes of the detector that its methods read or write. \<^verbatim>\<open>history_size\<close> is
  assigned once, in \<^verbatim>\<open>__init__\<close>, and is a constant here.
\<close>

record liveness_detector =
  blink_count :: int
  head_movement_count :: int
  last_face_position :: "face_rect option"
  required_blinks :: int
  required_movements :: int
  blink_history :: "real list"
  movement_history :: "real list"

definition history_size :: nat where
  "history_size = 5"

definition new_liveness_detector :: liveness_detector where
  "new_liveness_detector =
     \<lparr>blink_count = 0, head_movement_count = 0, last_face_position = None,
      required_blinks = 1, required_movements = 1, blink_history = [], movement_history = []\<rparr>"

text \<open>\<^verbatim>\<open>history.append(v); if len(history) > history_size: history.pop(0)\<close>\<close>

definition push_history :: "real list \<Rightarrow> real \<Rightarrow> real list" where
  "push_history h v = (let h1 = h @ [v] in if length h1 > history_size then tl h1 else h1)"

definition detect_blink :: "liveness_detector \<Rightarrow> real \<Rightarrow> bool \<times> liveness_detector" where
  "detect_blink det ear =
     (let det1 = det\<lparr>blink_history := push_history (blink_history det) ear\<rparr> in
      if length (blink_history det1) < history_size then (False, det1)
      else
        let avg_ear = sum_list (blink_history det1) / real (length (blink_history det1)) in
        if ear < avg_ear * (7 / 10) then (True, det1\<lparr>blink_count := blink_count det1 + 1\<rparr>)
        else (False, det1))"

text \<open>\<^verbatim>\<open>np.linalg.norm(np.array(face_position) - np.array(self.last_face_position))\<close>\<close>

definition position_distance :: "face_rect \<Rightarrow> face_rect \<Rightarrow> real" where
  "position_distance p q =
     (case p of (x, y, w, h) \<Rightarrow> case q of (x', y', w', h') \<Rightarrow>
        sqrt (real_of_int ((x - x')\<^sup>2 + (y - y')\<^sup>2 + (w - w')\<^sup>2 + (h - h')\<^sup>2)))"

definition detect_head_movement :: "liveness_detector \<Rightarrow> face_rect \<Rightarrow> bool \<times> liveness_detector" where
  "detect_head_movement det face_position =
     (case last_face_position det of
        None \<Rightarrow> (False, det\<lparr>last_face_position := Some face_position\<rparr>)
      | Some last_position \<Rightarrow>
          let movement = position_distance face_position last_position;
              det1 = det\<lparr>movement_history := push_history (movement_history det) movement,
                         last_face_position := Some face_position\<rparr>
          in
          if length (movement_history det1) < history_size then (False, det1)
          else
            let avg_movement =
                  sum_list (movement_history det1) / real (length (movement_history det1))
            in
            if movement > avg_movement * (12 / 10)
            then (True, det1\<lparr>head_movement_count := head_movement_count det1 + 1\<rparr>)
            else (False, det1))"

definition check_liveness ::
  "('img, 'lm) vision \<Rightarrow> liveness_detector \<Rightarrow> 'img \<Rightarrow> 'lm option \<Rightarrow> face_rect option \<Rightarrow>
   bool \<times> liveness_detector" where
  "check_liveness vis det face_image landmarks face_position =
     (let det1 = (case landmarks of
                    None \<Rightarrow> det
                  | Some lm \<Rightarrow> snd (detect_blink det (calculate_eye_aspect_ratio vis lm)));
          det2 = (case face_position of
                    None \<Rightarrow> det1
                  | Some p \<Rightarrow> snd (detect_head_movement det1 p));
          texture_check = analyze_texture vis face_image
      in ((blink_count det2 \<ge> required_blinks det2
             \<or> head_movement_count det2 \<ge> required_movements det2) \<and> texture_check,
          det2))"

definition reset :: "liveness_detector \<Rightarrow> liveness_detector" where
  "reset det = det\<lparr>blink_count := 0, head_movement_count := 0, last_face_position := None,
                    blink_history := [], movement_history := []\<rparr>"

text \<open>A run of \<^verbatim>\<open>check_liveness\<close> calls on one detector, with no \<^verbatim>\<open>reset\<close> between them.\<close>

fun check_liveness_calls ::
  "('img, 'lm) vision \<Rightarrow> liveness_detector \<Rightarrow> ('img \<times> 'lm option \<times> face_rect option) list \<Rightarrow>
   liveness_detector" where
  "check_liveness_calls vis det [] = det"
| "check_liveness_calls vis det ((img, lm, pos) # calls) =
     check_liveness_calls vis (snd (check_liveness vis det img lm pos)) calls"


section \<open>Recognition (class ViTFaceRecognitionSystem)\<close>

datatype py_error = ValueError | IndexError

record face_system =
  known_face_encodings :: "real list list"
  known_face_ids :: "student_id list"
  liveness :: liveness_detector

record recognition_results =
  recognized :: "recognized_student list"
  unrecognized :: "unrecognized_face list"

text \<open>\<^verbatim>\<open>np.dot\<close> of two one-dimensional arrays; arrays of different lengths raise.\<close>

definition np_dot :: "real list \<Rightarrow> real list \<Rightarrow> py_error + real" where
  "np_dot a b = (if length a = length b then Inr (sum_list (map2 (*) a b)) else Inl ValueError)"

text \<open>
  \<^verbatim>\<open>np.argmin\<close> of a list: a scan that keeps the index of the smallest value seen so far
  and replaces it only by a strictly smaller one; the empty list raises.
\<close>

fun argmin_scan :: "real list \<Rightarrow> nat \<Rightarrow> nat \<Rightarrow> real \<Rightarrow> nat" where
  "argmin_scan [] i best v = best"
| "argmin_scan (x # xs) i best v =
     (if x < v then argmin_scan xs (Suc i) i x else argmin_scan xs (Suc i) best v)"

definition np_argmin :: "real list \<Rightarrow> py_error + nat" where
  "np_argmin xs = (case xs of [] \<Rightarrow> Inl ValueError | x # rest \<Rightarrow> Inr (argmin_scan rest 1 0 x))"

text \<open>The loop that fills \<^verbatim>\<open>distances\<close>.\<close>

fun compute_distances :: "real list \<Rightarrow> real list list \<Rightarrow> py_error + real list" where
  "compute_distances face_encoding [] = Inr []"
| "compute_distances face_encoding (known_encoding # rest) =
     (case np_dot face_encoding known_encoding of
        Inl e \<Rightarrow> Inl e
      | Inr similarity \<Rightarrow>
          (case compute_distances face_encoding rest of
             Inl e \<Rightarrow> Inl e
           | Inr ds \<Rightarrow> Inr ((1 - similarity) # ds)))"

definition get_user_name :: "database \<Rightarrow> student_id \<Rightarrow> string" where
  "get_user_name db sid =
     (case find (\<lambda>(i, n). i = sid) (users db) of
        Some (i, n) \<Rightarrow> n
      | None \<Rightarrow> ''Student '' @ sid)"

text \<open>
  What one round of the loop over the detected faces appends: an entry of
  \<^verbatim>\<open>recognized_students\<close> or an entry of \<^verbatim>\<open>unrecognized_faces\<close>.
\<close>

datatype face_outcome = Recognized recognized_student | Unrecognized unrecognized_face

text \<open>
  The comparison of one normalised face encoding with the known encodings (the part of
  the loop body after the encoding is computed).
\<close>

definition match_face ::
  "database \<Rightarrow> face_system \<Rightarrow> course_id option \<Rightarrow> location \<Rightarrow> real list \<Rightarrow> py_error + face_outcome" where
  "match_face db sys ref loc face_encoding =
     (case compute_distances face_encoding (known_face_encodings sys) of
        Inl e \<Rightarrow> Inl e
      | Inr distances \<Rightarrow>
          if length distances > 0 then
            (case np_argmin distances of
               Inl e \<Rightarrow> Inl e
             | Inr best_match_index \<Rightarrow>
                 let min_distance = distances ! best_match_index in
                 if min_distance \<le> FACE_RECOGNITION_TOLERANCE then
                   (if best_match_index < length (known_face_ids sys) then
                      let sid = known_face_ids sys ! best_match_index in
                      (case ref of
                         Some r \<Rightarrow>
                           if \<not> is_student_enrolled_in_course db sid r then
                             Inr (Unrecognized \<lparr>uf_location = loc, uf_message = ''Not enrolled''\<rparr>)
                           else
                             Inr (Recognized
                               \<lparr>rs_student_id = sid, rs_name = get_user_name db sid,
                                rs_confidence = 1 - min_distance / FACE_RECOGNITION_TOLERANCE,
                                rs_location = loc\<rparr>)
                       | None \<Rightarrow>
                           Inr (Recognized
                             \<lparr>rs_student_id = sid, rs_name = get_user_name db sid,
                              rs_confidence = 1 - min_distance / FACE_RECOGNITION_TOLERANCE,
                              rs_location = loc\<rparr>))
                    else Inl IndexError)
                 else Inr (Unrecognized \<lparr>uf_location = loc, uf_message = ''Unknown''\<rparr>))
          else Inr (Unrecognized \<lparr>uf_location = loc, uf_message = ''Unknown''\<rparr>))"

text \<open>
  One round of the loop over the detected faces. The liveness check receives the whole
  frame, no landmarks, and the face rectangle as the position.
\<close>

definition recognize_face ::
  "('img, 'lm) vision \<Rightarrow> database \<Rightarrow> face_system \<Rightarrow> 'img \<Rightarrow> course_id option \<Rightarrow>
   liveness_detector \<Rightarrow> face_rect \<Rightarrow> (py_error + face_outcome) \<times> liveness_detector" where
  "recognize_face vis db sys frame ref det face_rect =
     (case face_rect of (x, y, w, h) \<Rightarrow>
        (case check_liveness vis det frame None (Some face_rect) of
           (live, det') \<Rightarrow>
             if \<not> live then
               (Inr (Unrecognized \<lparr>uf_location = (y, x + w, y + h, x),
                                   uf_message = ''Liveness check failed''\<rparr>), det')
             else
               (match_face db sys ref (y, x + w, y + h, x)
                  (encode_face_region vis frame face_rect), det')))"

fun recognize_loop ::
  "(liveness_detector \<Rightarrow> face_rect \<Rightarrow> (py_error + face_outcome) \<times> liveness_detector) \<Rightarrow>
   liveness_detector \<Rightarrow> face_rect list \<Rightarrow> recognized_student list \<Rightarrow> unrecognized_face list \<Rightarrow>
   (py_error + recognition_results) \<times> liveness_detector" where
  "recognize_loop body det [] recognized_students unrecognized_faces =
     (Inr \<lparr>recognized = recognized_students, unrecognized = unrecognized_faces\<rparr>, det)"
| "recognize_loop body det (face # faces) recognized_students unrecognized_faces =
     (case body det face of
        (Inl e, det') \<Rightarrow> (Inl e, det')
      | (Inr (Recognized r), det') \<Rightarrow>
          recognize_loop body det' faces (recognized_students @ [r]) unrecognized_faces
      | (Inr (Unrecognized u), det') \<Rightarrow>
          recognize_loop body det' faces recognized_students (unrecognized_faces @ [u]))"

text \<open>
  \<^verbatim>\<open>recognize_faces\<close> returns the result dictionary (or raises) and leaves the detector
  of the system in a new state.
\<close>

definition recognize_faces ::
  "('img, 'lm) vision \<Rightarrow> database \<Rightarrow> face_system \<Rightarrow> 'img \<Rightarrow> course_id option \<Rightarrow>
   (py_error + recognition_results) \<times> face_system" where
  "recognize_faces vis db sys frame ref =
     (if known_face_encodings sys = [] then (Inr \<lparr>recognized = [], unrecognized = []\<rparr>, sys)
      else
        let faces = detectMultiScale vis frame in
        if length faces = 0 then (Inr \<lparr>recognized = [], unrecognized = []\<rparr>, sys)
        else
          (case recognize_loop (recognize_face vis db sys frame ref) (liveness sys) faces [] [] of
             (res, det') \<Rightarrow> (res, sys\<lparr>liveness := det'\<rparr>)))"


section \<open>The uniqueness constraint\<close>

text \<open>\<^verbatim>\<open>UNIQUE(student_id, course_id, date)\<close> as a predicate on the attendance table.\<close>

definition attendance_key :: "attendance_row \<Rightarrow> student_id \<times> course_id \<times> date" where
  "attendance_key r = (student_id r, course_id r, date r)"

definition unique_attendance :: "attendance_row list \<Rightarrow> bool" where
  "unique_attendance tbl = distinct (map attendance_key tbl)"

text \<open>The row \<^verbatim>\<open>cancel_lecture\<close> inserts for a student.\<close>

definition cancelled_na_row :: "course_id \<Rightarrow> date \<Rightarrow> student_id \<Rightarrow> attendance_row" where
  "cancelled_na_row cid d s =
     \<lparr>student_id = s, course_id = cid, date = d, time = None, second_time = None,
      status = STATUS_NA, is_cancelled = 1\<rparr>"


section \<open>Cosine similarity and the selection rule\<close>

text \<open>
  The dot product, the Euclidean norm and the cosine similarity of two vectors, and the
  selection rule of the specification: the first index that holds a minimum.
\<close>

definition dot :: "real list \<Rightarrow> real list \<Rightarrow> real" where
  "dot a b = sum_list (map2 (*) a b)"

definition l2_norm :: "real list \<Rightarrow> real" where
  "l2_norm a = sqrt (dot a a)"

definition cosine_similarity :: "real list \<Rightarrow> real list \<Rightarrow> real" where
  "cosine_similarity a b = dot a b / (l2_norm a * l2_norm b)"

definition first_minimum :: "real list \<Rightarrow> nat \<Rightarrow> bool" where
  "first_minimum ds i =
     (i < length ds \<and> (\<forall>j < length ds. ds ! i \<le> ds ! j) \<and> (\<forall>j < i. ds ! i < ds ! j))"


section \<open>Schedules inside one day\<close>

text \<open>
  A clock value of the day. The properties of the check-in windows below are stated
  with plain sums and differences of seconds, for schedules whose thresholds are clock
  values of the same day.
\<close>

definition same_day :: "clock \<Rightarrow> bool" where
  "same_day t = (0 \<le> t \<and> t < 86400)"


section \<open>What a frame reports\<close>

text \<open>
  The report of a frame in the words of the specification. The faces of a frame are
  checked in the order of detection, each by one liveness check on the detector the
  checks before it have left, so \<open>detector_before\<close> at \<open>i\<close> is the detector that face \<open>i\<close>
  meets and at \<open>Suc i\<close> the detector it leaves. Liveness of face \<open>i\<close> is accepted when a
  counter has reached its requirement, on the counters the check of that face leaves,
  and the texture analysis passes. A face that is not accepted is reported as
  unrecognized with the liveness reason; an accepted face is reported as the matching
  decides. The lists of a result are the recognized and the unrecognized reports, each in
  the order of the faces.
\<close>

definition face_location :: "face_rect \<Rightarrow> location" where
  "face_location face = (case face of (x, y, w, h) \<Rightarrow> (y, x + w, y + h, x))"

definition detector_before ::
  "('img, 'lm) vision \<Rightarrow> liveness_detector \<Rightarrow> 'img \<Rightarrow> face_rect list \<Rightarrow> nat \<Rightarrow> liveness_detector" where
  "detector_before vis det frame faces i =
     check_liveness_calls vis det (map (\<lambda>f. (frame, None, Some f)) (take i faces))"

definition liveness_accepted ::
  "('img, 'lm) vision \<Rightarrow> liveness_detector \<Rightarrow> 'img \<Rightarrow> face_rect list \<Rightarrow> nat \<Rightarrow> bool" where
  "liveness_accepted vis det frame faces i =
     ((required_blinks det \<le> blink_count (detector_before vis det frame faces (Suc i))
        \<or> required_movements det \<le> head_movement_count (detector_before vis det frame faces (Suc i)))
      \<and> analyze_texture vis frame)"

definition face_report ::
  "('img, 'lm) vision \<Rightarrow> database \<Rightarrow> face_system \<Rightarrow> 'img \<Rightarrow> course_id option \<Rightarrow>
   face_rect list \<Rightarrow> nat \<Rightarrow> py_error + face_outcome" where
  "face_report vis db sys frame ref faces i =
     (if liveness_accepted vis (liveness sys) frame faces i
      then match_face db sys ref (face_location (faces ! i))
             (encode_face_region vis frame (faces ! i))
      else Inr (Unrecognized \<lparr>uf_location = face_location (faces ! i),
                               uf_message = ''Liveness check failed''\<rparr>))"

definition frame_reports ::
  "('img, 'lm) vision \<Rightarrow> database \<Rightarrow> face_system \<Rightarrow> 'img \<Rightarrow> course_id option \<Rightarrow>
   (py_error + face_outcome) list" where
  "frame_reports vis db sys frame ref =
     map (face_report vis db sys frame ref (detectMultiScale vis frame))
       [0..<length (detectMultiScale vis frame)]"

fun recognized_reports :: "(py_error + face_outcome) list \<Rightarrow> recognized_student list" where
  "recognized_reports [] = []"
| "recognized_reports (Inr (Recognized r) # reports) = r # recognized_reports reports"
| "recognized_reports (other # reports) = recognized_reports reports"

fun unrecognized_reports :: "(py_error + face_outcome) list \<Rightarrow> unrecognized_face list" where
  "unrecognized_reports [] = []"
| "unrecognized_reports (Inr (Unrecognized u) # reports) = u # unrecognized_reports reports"
| "unrecognized_reports (other # reports) = unrecognized_reports reports"



section \<open>Example data\<close>

text \<open>
  A course from 08:00 to 09:00 with two enrolled students, used for the concrete
  instances below.
\<close>

definition demo_course :: course where
  "demo_course = \<lparr>reference_number = 101, start_time = hm 8 0, end_time = hm 9 0\<rparr>"

definition demo_db :: database where
  "demo_db = \<lparr>users = [(''S1'', ''Sara''), (''S2'', ''Omar'')], courses = [demo_course],
     enrollments = [(101, ''S1''), (101, ''S2'')], lecture_custom_times = [], attendance = []\<rparr>"

definition demo_student :: recognized_student where
  "demo_student = \<lparr>rs_student_id = ''S1'', rs_name = ''Sara'', rs_confidence = 1 / 2,
     rs_location = (10, 110, 110, 10)\<rparr>"

text \<open>The same course with one row for the day: a first check-in at 08:05.\<close>

definition present_row :: attendance_row where
  "present_row = \<lparr>student_id = ''S1'', course_id = 101, date = ''2024-03-04'',
     time = Some (hm 8 5), second_time = None, status = STATUS_PRESENT, is_cancelled = 0\<rparr>"

definition present_db :: database where
  "present_db = demo_db\<lparr>attendance := [present_row]\<rparr>"

text \<open>The same course after the lecture of the day was cancelled.\<close>

definition cancelled_row :: attendance_row where
  "cancelled_row = \<lparr>student_id = ''S1'', course_id = 101, date = ''2024-03-04'', time = None,
     second_time = None, status = STATUS_NA, is_cancelled = 1\<rparr>"

definition cancelled_db :: database where
  "cancelled_db = demo_db\<lparr>attendance := [cancelled_row]\<rparr>"

text \<open>Rows for the end-of-day batch: a late row of the day and a row of the day before.\<close>

definition old_row :: attendance_row where
  "old_row = \<lparr>student_id = ''S2'', course_id = 101, date = ''2024-03-03'',
     time = Some (hm 8 5), second_time = None, status = STATUS_PRESENT, is_cancelled = 0\<rparr>"

definition late_row :: attendance_row where
  "late_row = \<lparr>student_id = ''S2'', course_id = 101, date = ''2024-03-04'',
     time = Some (hm 8 20), second_time = None, status = STATUS_LATE, is_cancelled = 0\<rparr>"

definition old_db :: database where
  "old_db = demo_db\<lparr>attendance := [old_row]\<rparr>"

definition recon_db :: database where
  "recon_db = demo_db\<lparr>attendance := [present_row, late_row, old_row]\<rparr>"

text \<open>
  A camera that finds one face in every frame, a gallery of three encodings, and an
  empty gallery.
\<close>

definition demo_vision :: "(unit, unit) vision" where
  "demo_vision = \<lparr>calculate_eye_aspect_ratio = (\<lambda>lm. 3 / 10), analyze_texture = (\<lambda>img. True),
     detectMultiScale = (\<lambda>img. [(10, 10, 100, 100)]),
     encode_face_region = (\<lambda>img rect. [1, 0])\<rparr>"

definition demo_system :: face_system where
  "demo_system = \<lparr>known_face_encodings = [[0, 1], [1, 0], [1, 0]],
     known_face_ids = [''S1'', ''S2'', ''S3''], liveness = new_liveness_detector\<rparr>"

definition empty_system :: face_system where
  "empty_system = \<lparr>known_face_encodings = [], known_face_ids = [],
     liveness = new_liveness_detector\<rparr>"

text \<open>
  Six calls of the liveness check for one face region, which stays in place for five
  frames and then moves, and the detector they leave behind.
\<close>

definition warmup_calls :: "(unit \<times> unit option \<times> face_rect option) list" where
  "warmup_calls =
     [((), None, Some (0, 0, 50, 50)), ((), None, Some (0, 0, 50, 50)),
      ((), None, Some (0, 0, 50, 50)), ((), None, Some (0, 0, 50, 50)),
      ((), None, Some (0, 0, 50, 50)), ((), None, Some (3, 4, 50, 50))]"

definition warm_detector :: liveness_detector where
  "warm_detector =
     \<lparr>blink_count = 0, head_movement_count = 1, last_face_position = Some (3, 4, 50, 50),
      required_blinks = 1, required_movements = 1, blink_history = [],
      movement_history = [0, 0, 0, 0, 5]\<rparr>"








text \<open>
  A camera that finds two faces in every frame, and a system whose detector has seen
  the first of them stand still for five frames.
\<close>

definition pair_vision :: "(unit, unit) vision" where
  "pair_vision = \<lparr>calculate_eye_aspect_ratio = (\<lambda>lm. 3 / 10), analyze_texture = (\<lambda>img. True),
     detectMultiScale = (\<lambda>img. [(0, 0, 50, 50), (3, 4, 50, 50)]),
     encode_face_region = (\<lambda>img rect. [1, 0])\<rparr>"

definition still_detector :: liveness_detector where
  "still_detector =
     \<lparr>blink_count = 0, head_movement_count = 0, last_face_position = Some (0, 0, 50, 50),
      required_blinks = 1, required_movements = 1, blink_history = [],
      movement_history = [0, 0, 0, 0]\<rparr>"

definition still_system :: face_system where
  "still_system = \<lparr>known_face_encodings = [[0, 1], [1, 0], [1, 0]],
     known_face_ids = [''S1'', ''S2'', ''S3''], liveness = still_detector\<rparr>"



section \<open>Clock offsets inside one day\<close>

text \<open>An offset that stays inside the day is the plain sum or difference of seconds.\<close>

lemma minus_minutes_same_day:
  "0 \<le> t - 60 * m \<Longrightarrow> t - 60 * m < 86400 \<Longrightarrow> minus_minutes t m = t - 60 * m"
  by (simp add: minus_minutes_def)

lemma plus_minutes_same_day:
  "0 \<le> t + 60 * m \<Longrightarrow> t + 60 * m < 86400 \<Longrightarrow> plus_minutes t m = t + 60 * m"
  by (simp add: plus_minutes_def)

lemma minus_minutes_plain: "same_day (t - 60 * m) \<Longrightarrow> minus_minutes t m = t - 60 * m"
  by (simp add: same_day_def minus_minutes_def)




section \<open>Reading and writing the attendance table\<close>

lemma insert_attendance_fresh:
  "select_attendance tbl (student_id r) (course_id r) (date r) = None \<Longrightarrow>
   insert_attendance tbl r = Some (tbl @ [r])"
  by (simp add: select_attendance_def insert_attendance_def find_None_iff list_ex_iff)

lemma select_attendance_unique:
  "unique_attendance tbl \<Longrightarrow> r \<in> set tbl \<Longrightarrow> same_key sid cid d r \<Longrightarrow>
   select_attendance tbl sid cid d = Some r"
proof (induction tbl)
  case Nil
  then show ?case by simp
next
  case (Cons x xs)
  show ?case
  proof (cases "same_key sid cid d x")
    case True
    have "x = r"
    proof (rule ccontr)
      assume "x \<noteq> r"
      with Cons.prems(2) have "r \<in> set xs" by simp
      moreover have "attendance_key r = attendance_key x"
        using True Cons.prems(3) by (simp add: same_key_def attendance_key_def)
      ultimately have "attendance_key x \<in> set (map attendance_key xs)"
        using imageI [of r "set xs" attendance_key] by simp
      with Cons.prems(1) show False by (simp add: unique_attendance_def)
    qed
    with True show ?thesis by (simp add: select_attendance_def)
  next
    case False
    with Cons.prems(2,3) have "r \<in> set xs" by auto
    moreover from Cons.prems(1) have "unique_attendance xs" by (simp add: unique_attendance_def)
    ultimately have "select_attendance xs sid cid d = Some r"
      using Cons.IH Cons.prems(3) by simp
    with False show ?thesis by (simp add: select_attendance_def)
  qed
qed

lemma update_attendance_unique:
  assumes u: "unique_attendance tbl" and m: "r \<in> set tbl" and k: "same_key sid cid d r"
  shows "update_attendance tbl sid cid d f = map (\<lambda>x. if x = r then f r else x) tbl"
proof -
  have inj: "inj_on attendance_key (set tbl)"
    using u by (simp add: unique_attendance_def distinct_map)
  have "(if same_key sid cid d x then f x else x) = (if x = r then f r else x)"
    if x: "x \<in> set tbl" for x
  proof (cases "same_key sid cid d x")
    case True
    then have "attendance_key x = attendance_key r"
      using k by (simp add: same_key_def attendance_key_def)
    with inj have "x = r" using x m by (rule inj_onD)
    with True show ?thesis by simp
  next
    case False
    with k have "x \<noteq> r" by blast
    with False show ?thesis by simp
  qed
  then have "map (\<lambda>x. if same_key sid cid d x then f x else x) tbl
           = map (\<lambda>x. if x = r then f r else x) tbl"
    by (rule map_cong [OF refl])
  then show ?thesis by (simp only: update_attendance_def)
qed

lemma insert_attendance_keeps_unique:
  assumes "unique_attendance tbl" and "insert_attendance tbl r = Some tbl'"
  shows "unique_attendance tbl'"
proof -
  have no: "\<not> list_ex (same_key (student_id r) (course_id r) (date r)) tbl"
    and tbl': "tbl' = tbl @ [r]"
    using assms(2) by (auto simp: insert_attendance_def split: if_splits)
  have "attendance_key r \<notin> set (map attendance_key tbl)"
  proof
    assume "attendance_key r \<in> set (map attendance_key tbl)"
    then obtain x where "x \<in> set tbl" and "attendance_key x = attendance_key r" by auto
    then have "x \<in> set tbl \<and> same_key (student_id r) (course_id r) (date r) x"
      by (simp add: attendance_key_def same_key_def)
    with no show False unfolding list_ex_iff by blast
  qed
  with assms(1) show ?thesis by (simp add: unique_attendance_def tbl')
qed

lemma update_attendance_keys:
  "(\<And>r. attendance_key (f r) = attendance_key r) \<Longrightarrow>
   map attendance_key (update_attendance tbl sid cid d f) = map attendance_key tbl"
  by (induction tbl) (simp_all add: update_attendance_def)

lemma update_attendance_keeps_unique:
  "(\<And>r. attendance_key (f r) = attendance_key r) \<Longrightarrow> unique_attendance tbl \<Longrightarrow>
   unique_attendance (update_attendance tbl sid cid d f)"
  by (simp add: unique_attendance_def update_attendance_keys)

lemma recognized_single:
  "get_course_by_id db cid = Some c \<Longrightarrow>
   mark_attendance_for_recognized_students db today now [student] cid =
     (case mark_recognized_student today now cid (effective_end db cid c today)
             (minus_minutes (start_time c) EARLY_ARRIVAL_MARGIN)
             (plus_minutes (start_time c) LATE_THRESHOLD)
             (minus_minutes (effective_end db cid c today) SECOND_CHECKIN_WINDOW)
             (plus_minutes (effective_end db cid c today) SECOND_CHECKIN_WINDOW) db student of
        (res, db') \<Rightarrow> ([res], db'))"
  by (simp add: mark_attendance_for_recognized_students_def Let_def split: prod.split)

lemma first_checkin_message:
  assumes "select_attendance (attendance db) sid cid today = None"
    and "is_student_enrolled_in_course db sid cid" and "rs_student_id student = sid"
  shows "message (fst (mark_recognized_student today now cid course_end early_arrival
            late_threshold s1 s2 db student)) =
         (if now < early_arrival then ''Too early''
          else if now > course_end then ''Class ended''
          else ''Marked as '' @ (if now \<le> late_threshold then STATUS_PRESENT else STATUS_LATE))"
  using assms by (simp add: mark_recognized_student_def Let_def)

lemma recognized_single_message:
  "get_course_by_id db cid = Some c \<Longrightarrow>
   map message (fst (mark_attendance_for_recognized_students db today now [student] cid)) =
     [message (fst (mark_recognized_student today now cid (effective_end db cid c today)
             (minus_minutes (start_time c) EARLY_ARRIVAL_MARGIN)
             (plus_minutes (start_time c) LATE_THRESHOLD)
             (minus_minutes (effective_end db cid c today) SECOND_CHECKIN_WINDOW)
             (plus_minutes (effective_end db cid c today) SECOND_CHECKIN_WINDOW) db student))]"
  by (simp add: recognized_single split: prod.split)

text \<open>
  The two automatic paths on a first check-in and on a further check-in, with the
  thresholds as the code computes them, and the manual entry on an existing row.
\<close>

lemma auto_first_checkin:
  assumes "get_course_by_id db cid = Some c"
    and "select_attendance (attendance db) sid cid today = None"
  shows "auto_mark_attendance db today now sid cid =
     (if minus_minutes (start_time c) EARLY_ARRIVAL_MARGIN \<le> now
         \<and> now \<le> minus_minutes (effective_end db cid c today) 10
      then (True, db\<lparr>attendance := attendance db @
              [\<lparr>student_id = sid, course_id = cid, date = today, time = Some now,
                second_time = None,
                status = (if now > plus_minutes (start_time c) LATE_THRESHOLD
                          then STATUS_LATE else STATUS_PRESENT),
                is_cancelled = 0\<rparr>]\<rparr>)
      else (False, db))"
proof -
  have ins: "insert_attendance (attendance db)
               \<lparr>student_id = sid, course_id = cid, date = today, time = Some now,
                second_time = None, status = s, is_cancelled = 0\<rparr>
             = Some (attendance db @
               [\<lparr>student_id = sid, course_id = cid, date = today, time = Some now,
                 second_time = None, status = s, is_cancelled = 0\<rparr>])" for s
    using assms(2) by (intro insert_attendance_fresh) simp
  show ?thesis
    using assms by (simp add: auto_mark_attendance_def Let_def ins)
qed




lemma mark_attendance_existing_row:
  assumes "unique_attendance (attendance db)" and "r \<in> set (attendance db)"
    and "same_key sid cid d r" and "is_cancelled r \<noteq> 1"
  shows "mark_attendance db sid cid d t st =
           (if second_time r = None
            then (True, db\<lparr>attendance :=
                    map (\<lambda>x. if x = r then r\<lparr>second_time := Some t, status := st\<rparr> else x)
                      (attendance db)\<rparr>)
            else (False, db))"
proof -
  have sel: "select_attendance (attendance db) sid cid d = Some r"
    using assms(1,2,3) by (rule select_attendance_unique)
  have upd: "update_attendance (attendance db) sid cid d f
               = map (\<lambda>x. if x = r then f r else x) (attendance db)" for f
    using assms(1,2,3) by (rule update_attendance_unique)
  show ?thesis
    using assms(4) by (simp add: mark_attendance_def sel upd)
qed


subsection \<open>Facts about the example data\<close>

lemma demo_course_found: "get_course_by_id demo_db 101 = Some demo_course"
  by (simp add: get_course_by_id_def demo_db_def demo_course_def)

lemma demo_end: "effective_end demo_db 101 demo_course d = hm 9 0"
  by (simp add: effective_end_def get_custom_end_time_def demo_db_def demo_course_def)

lemma demo_start: "start_time demo_course = hm 8 0"
  by (simp add: demo_course_def)

lemma demo_attendance: "attendance demo_db = []"
  by (simp add: demo_db_def)

lemma demo_enrolled: "is_student_enrolled_in_course demo_db ''S1'' 101"
  by (simp add: is_student_enrolled_in_course_def demo_db_def)

lemma demo_student_id: "rs_student_id demo_student = ''S1''"
  by (simp add: demo_student_def)

lemma demo_no_row: "select_attendance (attendance demo_db) ''S1'' 101 ''2024-03-04'' = None"
  by (simp add: select_attendance_def demo_attendance)

lemma present_enrolled_students: "get_enrolled_students present_db 101 = [''S1'', ''S2'']"
  by (simp add: get_enrolled_students_def present_db_def demo_db_def)

lemma demo_enrolled_students: "get_enrolled_students demo_db 101 = [''S1'', ''S2'']"
  by (simp add: get_enrolled_students_def demo_db_def)






section \<open>The first check-in\<close>

text \<open>
  Claim C1, as stated: a first check-in is rejected with "class ended" exactly when the
  current time is later than the effective end time minus \<open>EARLY_DEPARTURE_THRESHOLD\<close>
  (15) minutes, in both marking paths. It fails at 08:50 for a class that ends at 09:00:
  the student has no row for the day, 08:50 is later than 08:45, and both
  \<^verbatim>\<open>auto_mark_attendance\<close> and the recognition path accept the check-in.
\<close>

theorem C1_counterexample:
  "select_attendance (attendance demo_db) ''S1'' 101 ''2024-03-04'' = None
   \<and> minus_minutes (effective_end demo_db 101 demo_course ''2024-03-04'') EARLY_DEPARTURE_THRESHOLD
        < hm 8 50
   \<and> fst (auto_mark_attendance demo_db ''2024-03-04'' (hm 8 50) ''S1'' 101) = True
   \<and> map message (fst (mark_attendance_for_recognized_students demo_db ''2024-03-04'' (hm 8 50)
        [demo_student] 101)) = [''Marked as Late'']"
proof -
  note a = demo_no_row
  have b: "minus_minutes (effective_end demo_db 101 demo_course ''2024-03-04'')
             EARLY_DEPARTURE_THRESHOLD < hm 8 50"
    by (simp add: demo_end hm_def minus_minutes_def EARLY_DEPARTURE_THRESHOLD_def)
  have c: "fst (auto_mark_attendance demo_db ''2024-03-04'' (hm 8 50) ''S1'' 101) = True"
    by (simp add: auto_mark_attendance_def demo_course_found select_attendance_def demo_end demo_start
        demo_attendance insert_attendance_def hm_def minus_minutes_def plus_minutes_def
        EARLY_ARRIVAL_MARGIN_def LATE_THRESHOLD_def Let_def)
  have d: "map message (fst (mark_attendance_for_recognized_students demo_db ''2024-03-04''
             (hm 8 50) [demo_student] 101)) = [''Marked as Late'']"
    by (simp add: recognized_single_message [OF demo_course_found]
        first_checkin_message [OF demo_no_row demo_enrolled demo_student_id]
        demo_end demo_start hm_def minus_minutes_def plus_minutes_def
        EARLY_ARRIVAL_MARGIN_def LATE_THRESHOLD_def STATUS_LATE_def)
  from a b c d show ?thesis by simp
qed

text \<open>
  Claim C1, amended. For a first check-in through \<^verbatim>\<open>auto_mark_attendance\<close> (the
  course exists, the student has no row for the course today) that is not too early, on
  a schedule whose start time minus \<open>EARLY_ARRIVAL_MARGIN\<close> minutes and whose effective end
  time minus 10 minutes are clock values of the same day: when the current time is later
  than the effective end time minus 10 minutes, the call returns \<open>False\<close> and the database
  is unchanged; otherwise the call returns \<open>True\<close> and appends exactly one row for the
  student. The 10 minutes are a literal of the function, not \<open>EARLY_DEPARTURE_THRESHOLD\<close>.
  Nothing is stated here about the recognition path.
\<close>

theorem C1_class_ended:
  assumes "get_course_by_id db cid = Some c"
    and "select_attendance (attendance db) sid cid today = None"
    and "same_day (start_time c - 60 * EARLY_ARRIVAL_MARGIN)"
    and "same_day (effective_end db cid c today - 600)"
    and "start_time c - 60 * EARLY_ARRIVAL_MARGIN \<le> now"
  shows "(effective_end db cid c today - 600 < now \<longrightarrow>
            auto_mark_attendance db today now sid cid = (False, db))
       \<and> (now \<le> effective_end db cid c today - 600 \<longrightarrow>
            (\<exists>st. auto_mark_attendance db today now sid cid =
               (True, db\<lparr>attendance := attendance db @
                  [\<lparr>student_id = sid, course_id = cid, date = today, time = Some now,
                    second_time = None, status = st, is_cancelled = 0\<rparr>]\<rparr>)))"
proof -
  have a: "minus_minutes (start_time c) EARLY_ARRIVAL_MARGIN = start_time c - 60 * EARLY_ARRIVAL_MARGIN"
    using assms(3) by (rule minus_minutes_plain)
  have b: "minus_minutes (effective_end db cid c today) 10 = effective_end db cid c today - 600"
    using assms(4) minus_minutes_plain [of "effective_end db cid c today" 10] by simp
  show ?thesis
    using assms(5) by (auto simp add: auto_first_checkin [OF assms(1,2)] a b)
qed

theorem C1_class_ended_witness:
  "auto_mark_attendance demo_db ''2024-03-04'' (hm 8 50 + 1) ''S1'' 101 = (False, demo_db)
   \<and> auto_mark_attendance demo_db ''2024-03-04'' (hm 8 52) ''S1'' 101 = (False, demo_db)
   \<and> fst (auto_mark_attendance demo_db ''2024-03-04'' (hm 8 50) ''S1'' 101) = True"
proof -
  have s: "same_day (start_time demo_course - 60 * EARLY_ARRIVAL_MARGIN)"
    by (simp add: same_day_def demo_start hm_def EARLY_ARRIVAL_MARGIN_def)
  have e: "same_day (effective_end demo_db 101 demo_course ''2024-03-04'' - 600)"
    by (simp add: same_day_def demo_end hm_def)
  have n: "start_time demo_course - 60 * EARLY_ARRIVAL_MARGIN \<le> now" if "hm 8 0 \<le> now" for now
    using that by (simp add: demo_start hm_def EARLY_ARRIVAL_MARGIN_def)
  note th = C1_class_ended [OF demo_course_found demo_no_row s e n]
  have x: "auto_mark_attendance demo_db ''2024-03-04'' (hm 8 50 + 1) ''S1'' 101 = (False, demo_db)"
    using th [of "hm 8 50 + 1"] by (simp add: demo_end hm_def)
  have y: "auto_mark_attendance demo_db ''2024-03-04'' (hm 8 52) ''S1'' 101 = (False, demo_db)"
    using th [of "hm 8 52"] by (simp add: demo_end hm_def)
  have z: "fst (auto_mark_attendance demo_db ''2024-03-04'' (hm 8 50) ''S1'' 101) = True"
  proof -
    have "\<exists>st. auto_mark_attendance demo_db ''2024-03-04'' (hm 8 50) ''S1'' 101 =
               (True, demo_db\<lparr>attendance := attendance demo_db @
                  [\<lparr>student_id = ''S1'', course_id = 101, date = ''2024-03-04'',
                    time = Some (hm 8 50), second_time = None, status = st,
                    is_cancelled = 0\<rparr>]\<rparr>)"
      using th [of "hm 8 50"] by (simp add: demo_end hm_def)
    then show ?thesis by auto
  qed
  from x y z show ?thesis by simp
qed






section \<open>The second check-in\<close>







section \<open>End-of-day reconciliation\<close>

text \<open>
  Claim C5, as stated: the batch rewrites every non-cancelled row with a first time, no
  second time and status Present. It fails for a row of another day: the batch of
  2024-03-04 leaves such a row of 2024-03-03 as it is.
\<close>

theorem C5_counterexample:
  "old_row \<in> set (attendance old_db)
   \<and> time old_row = Some (hm 8 5) \<and> second_time old_row = None
   \<and> status old_row = STATUS_PRESENT \<and> is_cancelled old_row = 0
   \<and> update_partial_attendance old_db ''2024-03-04'' = (True, old_db)"
  by (simp add: update_partial_attendance_def partial_row_def old_db_def old_row_def)

text \<open>
  Claim C5, amended. The batch returns \<open>True\<close> and rewrites to Unauthorized Departure
  every row dated the current day that has \<open>is_cancelled = 0\<close>, a first time, no second time
  and status Present; every other row keeps all its fields, in particular every row with
  status Late and every row of another day; no row is added or removed and no other table
  changes.
\<close>

theorem C5_reconciliation:
  "fst (update_partial_attendance db today) = True
   \<and> length (attendance (snd (update_partial_attendance db today))) = length (attendance db)
   \<and> (\<forall>i < length (attendance db).
         attendance (snd (update_partial_attendance db today)) ! i =
           (if date (attendance db ! i) = today \<and> time (attendance db ! i) \<noteq> None
               \<and> second_time (attendance db ! i) = None
               \<and> status (attendance db ! i) = STATUS_PRESENT
               \<and> is_cancelled (attendance db ! i) = 0
            then (attendance db ! i)\<lparr>status := STATUS_UNAUTHORIZED_DEPARTURE\<rparr>
            else attendance db ! i))
   \<and> (\<forall>i < length (attendance db).
         status (attendance db ! i) = STATUS_LATE \<longrightarrow>
         attendance (snd (update_partial_attendance db today)) ! i = attendance db ! i)
   \<and> users (snd (update_partial_attendance db today)) = users db
   \<and> courses (snd (update_partial_attendance db today)) = courses db
   \<and> enrollments (snd (update_partial_attendance db today)) = enrollments db
   \<and> lecture_custom_times (snd (update_partial_attendance db today)) = lecture_custom_times db"
  by (simp add: update_partial_attendance_def partial_row_def STATUS_LATE_def STATUS_PRESENT_def)

theorem C5_reconciliation_witness:
  "attendance (snd (update_partial_attendance recon_db ''2024-03-04'')) ! 0 =
     present_row\<lparr>status := STATUS_UNAUTHORIZED_DEPARTURE\<rparr>
   \<and> attendance (snd (update_partial_attendance recon_db ''2024-03-04'')) ! 1 = late_row
   \<and> attendance (snd (update_partial_attendance recon_db ''2024-03-04'')) ! 2 = old_row"
proof -
  have att: "attendance recon_db = [present_row, late_row, old_row]"
    by (simp add: recon_db_def)
  have l: "(0::nat) < length (attendance recon_db)" "(1::nat) < length (attendance recon_db)"
    "(2::nat) < length (attendance recon_db)"
    by (simp_all add: att)
  have th: "\<forall>i < length (attendance recon_db).
         attendance (snd (update_partial_attendance recon_db ''2024-03-04'')) ! i =
           (if date (attendance recon_db ! i) = ''2024-03-04'' \<and> time (attendance recon_db ! i) \<noteq> None
               \<and> second_time (attendance recon_db ! i) = None
               \<and> status (attendance recon_db ! i) = STATUS_PRESENT
               \<and> is_cancelled (attendance recon_db ! i) = 0
            then (attendance recon_db ! i)\<lparr>status := STATUS_UNAUTHORIZED_DEPARTURE\<rparr>
            else attendance recon_db ! i)"
    using C5_reconciliation [of recon_db "''2024-03-04''"] by blast
  have a: "attendance (snd (update_partial_attendance recon_db ''2024-03-04'')) ! 0 =
     present_row\<lparr>status := STATUS_UNAUTHORIZED_DEPARTURE\<rparr>"
    using th l(1) by (simp add: att present_row_def)
  have b: "attendance (snd (update_partial_attendance recon_db ''2024-03-04'')) ! 1 = late_row"
    using th l(2) by (simp add: att late_row_def STATUS_LATE_def STATUS_PRESENT_def)
  have c: "attendance (snd (update_partial_attendance recon_db ''2024-03-04'')) ! 2 = old_row"
    using th l(3) by (simp add: att old_row_def)
  from a b c show ?thesis by simp
qed


section \<open>Cancellation\<close>

text \<open>
  Claim C4: \<^verbatim>\<open>cancel_lecture\<close> leaves one N/A row with \<open>is_cancelled = 1\<close> for every
  enrolled student, creating the rows that are missing and overwriting the others. The
  code does not do this when only some of the enrolled students have a row for the date.
  Two students are enrolled and one of them has a row: \<^verbatim>\<open>cancel_lecture\<close> returns
  \<open>True\<close> and overwrites that row, and creates no row for the other student, who can
  then still check in to the cancelled lecture.
\<close>

theorem C4_cancel_misses_students:
  "get_enrolled_students present_db 101 = [''S1'', ''S2'']
   \<and> cancel_lecture present_db 101 ''2024-03-04'' =
       (True, present_db\<lparr>attendance := [present_row\<lparr>status := STATUS_NA, is_cancelled := 1\<rparr>]\<rparr>)
   \<and> select_attendance (attendance (snd (cancel_lecture present_db 101 ''2024-03-04'')))
         ''S2'' 101 ''2024-03-04'' = None
   \<and> fst (auto_mark_attendance (snd (cancel_lecture present_db 101 ''2024-03-04''))
         ''2024-03-04'' (hm 8 5) ''S2'' 101) = True"
proof -
  have c: "cancel_lecture present_db 101 ''2024-03-04'' =
       (True, present_db\<lparr>attendance := [present_row\<lparr>status := STATUS_NA, is_cancelled := 1\<rparr>]\<rparr>)"
    by (simp add: cancel_lecture_def present_db_def present_row_def Let_def)
  have s: "select_attendance (attendance (snd (cancel_lecture present_db 101 ''2024-03-04'')))
         ''S2'' 101 ''2024-03-04'' = None"
    by (simp add: c select_attendance_def same_key_def present_row_def)
  have g: "get_course_by_id (present_db\<lparr>attendance := tbl\<rparr>) 101 = Some demo_course" for tbl
    by (simp add: get_course_by_id_def present_db_def demo_db_def demo_course_def)
  have e: "effective_end (present_db\<lparr>attendance := tbl\<rparr>) 101 demo_course d = hm 9 0" for tbl d
    by (simp add: effective_end_def get_custom_end_time_def present_db_def demo_db_def demo_course_def)
  have a: "fst (auto_mark_attendance (snd (cancel_lecture present_db 101 ''2024-03-04''))
         ''2024-03-04'' (hm 8 5) ''S2'' 101) = True"
    by (simp add: c auto_mark_attendance_def g e demo_start Let_def)
       (simp add: select_attendance_def insert_attendance_def same_key_def present_row_def
          hm_def minus_minutes_def plus_minutes_def EARLY_ARRIVAL_MARGIN_def LATE_THRESHOLD_def)
  from present_enrolled_students c s a show ?thesis by simp
qed

lemma insert_cancelled_rows_append:
  assumes "\<forall>r \<in> set tbl. \<forall>s \<in> set ss. \<not> same_key s cid d r" and "distinct ss"
  shows "insert_cancelled_rows tbl cid d ss = (True, tbl @ map (cancelled_na_row cid d) ss)"
  using assms
proof (induction ss arbitrary: tbl)
  case Nil
  show ?case by simp
next
  case (Cons s ss)
  let ?row = "cancelled_na_row cid d s"
  have no: "\<not> list_ex (same_key s cid d) tbl"
    using Cons.prems(1) by (auto simp: list_ex_iff)
  then have ins: "insert_attendance tbl ?row = Some (tbl @ [?row])"
    by (simp add: insert_attendance_def cancelled_na_row_def)
  have "insert_cancelled_rows (tbl @ [?row]) cid d ss =
          (True, (tbl @ [?row]) @ map (cancelled_na_row cid d) ss)"
  proof (rule Cons.IH)
    show "\<forall>r \<in> set (tbl @ [?row]). \<forall>s' \<in> set ss. \<not> same_key s' cid d r"
      using Cons.prems by (auto simp: same_key_def cancelled_na_row_def)
    show "distinct ss" using Cons.prems(2) by simp
  qed
  with ins show ?case by (simp add: cancelled_na_row_def)
qed

text \<open>
  What \<^verbatim>\<open>cancel_lecture\<close> does achieve. When the date has no row for the course, it
  appends one cancelled N/A row per enrolled student.
\<close>

theorem cancel_lecture_without_rows:
  assumes "\<forall>r \<in> set (attendance db). \<not> (course_id r = cid \<and> date r = d)"
    and "distinct (get_enrolled_students db cid)"
  shows "cancel_lecture db cid d =
           (True, db\<lparr>attendance := attendance db @
              map (cancelled_na_row cid d) (get_enrolled_students db cid)\<rparr>)"
proof -
  have f1: "filter (\<lambda>r. course_id r = cid \<and> date r = d \<and> is_cancelled r = 1) (attendance db) = []"
    using assms(1) by (auto simp: filter_empty_conv)
  have f2: "filter (\<lambda>r. course_id r = cid \<and> date r = d) (attendance db) = []"
    using assms(1) by (auto simp: filter_empty_conv)
  have "insert_cancelled_rows (attendance db) cid d (get_enrolled_students db cid) =
          (True, attendance db @ map (cancelled_na_row cid d) (get_enrolled_students db cid))"
    using assms by (intro insert_cancelled_rows_append) (auto simp: same_key_def)
  then show ?thesis by (simp add: cancel_lecture_def f1 f2 Let_def)
qed

theorem cancel_lecture_without_rows_witness:
  "cancel_lecture demo_db 101 ''2024-03-04'' =
     (True, demo_db\<lparr>attendance :=
        [cancelled_na_row 101 ''2024-03-04'' ''S1'', cancelled_na_row 101 ''2024-03-04'' ''S2'']\<rparr>)"
proof -
  have a: "\<forall>r \<in> set (attendance demo_db). \<not> (course_id r = 101 \<and> date r = ''2024-03-04'')"
    by (simp add: demo_attendance)
  have b: "distinct (get_enrolled_students demo_db 101)"
    by (simp add: demo_enrolled_students)
  show ?thesis
    using cancel_lecture_without_rows [OF a b]
    by (simp add: demo_enrolled_students demo_attendance)
qed

lemma insert_cancelled_rows_keeps_rows:
  "set tbl \<subseteq> set (snd (insert_cancelled_rows tbl cid d ss))"
proof (induction ss arbitrary: tbl)
  case Nil
  show ?case by simp
next
  case (Cons s ss)
  show ?case
  proof (cases "insert_attendance tbl
             \<lparr>student_id = s, course_id = cid, date = d, time = None, second_time = None,
              status = STATUS_NA, is_cancelled = 1\<rparr>")
    case None
    then show ?thesis by simp
  next
    case (Some tbl')
    then have "tbl' = tbl @ [\<lparr>student_id = s, course_id = cid, date = d, time = None,
        second_time = None, status = STATUS_NA, is_cancelled = 1\<rparr>]"
      by (auto simp: insert_attendance_def split: if_splits)
    then have "set tbl \<subseteq> set tbl'" by auto
    also have "set tbl' \<subseteq> set (snd (insert_cancelled_rows tbl' cid d ss))" by (rule Cons.IH)
    finally show ?thesis using Some by simp
  qed
qed

lemma insert_cancelled_rows_success:
  assumes "insert_cancelled_rows tbl cid d (s # ss) = (True, tbl')"
  shows "\<exists>r \<in> set tbl'. course_id r = cid \<and> date r = d \<and> is_cancelled r = 1"
proof -
  let ?row = "\<lparr>student_id = s, course_id = cid, date = d, time = None, second_time = None,
              status = STATUS_NA, is_cancelled = 1\<rparr>"
  from assms obtain t1 where i: "insert_attendance tbl ?row = Some t1"
    by (cases "insert_attendance tbl ?row") simp_all
  then have t1: "t1 = tbl @ [?row]"
    by (auto simp: insert_attendance_def split: if_splits)
  from assms i have "insert_cancelled_rows t1 cid d ss = (True, tbl')" by simp
  then have "set t1 \<subseteq> set tbl'"
    using insert_cancelled_rows_keeps_rows [of t1 cid d ss] by simp
  with t1 have "?row \<in> set tbl'" by auto
  then show ?thesis by (intro bexI [of _ ?row]) simp_all
qed

lemma cancel_lecture_already_cancelled:
  assumes "\<exists>r \<in> set (attendance db). course_id r = cid \<and> date r = d \<and> is_cancelled r = 1"
  shows "cancel_lecture db cid d = (True, db)"
proof -
  have "filter (\<lambda>r. course_id r = cid \<and> date r = d \<and> is_cancelled r = 1) (attendance db) \<noteq> []"
    using assms by (auto simp: filter_empty_conv)
  then show ?thesis by (simp add: cancel_lecture_def Let_def)
qed

text \<open>
  A call that follows a successful call returns \<open>True\<close> and changes nothing.
\<close>

theorem cancel_lecture_idempotent:
  assumes "fst (cancel_lecture db cid d)"
  shows "cancel_lecture (snd (cancel_lecture db cid d)) cid d = (True, snd (cancel_lecture db cid d))"
proof (cases "\<exists>r \<in> set (attendance db). course_id r = cid \<and> date r = d \<and> is_cancelled r = 1")
  case True
  then have "cancel_lecture db cid d = (True, db)" by (rule cancel_lecture_already_cancelled)
  then show ?thesis by simp
next
  case False
  then have f1: "filter (\<lambda>r. course_id r = cid \<and> date r = d \<and> is_cancelled r = 1) (attendance db) = []"
    by (auto simp: filter_empty_conv)
  show ?thesis
  proof (cases "filter (\<lambda>r. course_id r = cid \<and> date r = d) (attendance db) = []")
    case False
    then obtain r where r: "r \<in> set (attendance db)" "course_id r = cid" "date r = d"
      by (auto simp: filter_empty_conv)
    let ?db' = "db\<lparr>attendance :=
             map (\<lambda>r. if course_id r = cid \<and> date r = d
                       then r\<lparr>status := STATUS_NA, is_cancelled := 1\<rparr> else r) (attendance db)\<rparr>"
    have c: "cancel_lecture db cid d = (True, ?db')"
      using f1 False by (simp add: cancel_lecture_def Let_def)
    have "r\<lparr>status := STATUS_NA, is_cancelled := 1\<rparr> \<in> set (attendance ?db')"
      using r by (auto simp: image_iff intro!: bexI [of _ r])
    then have "\<exists>x \<in> set (attendance ?db'). course_id x = cid \<and> date x = d \<and> is_cancelled x = 1"
      using r by (intro bexI [of _ "r\<lparr>status := STATUS_NA, is_cancelled := 1\<rparr>"]) simp_all
    then have "cancel_lecture ?db' cid d = (True, ?db')" by (rule cancel_lecture_already_cancelled)
    with c show ?thesis by simp
  next
    case True
    obtain ok tbl where l: "insert_cancelled_rows (attendance db) cid d (get_enrolled_students db cid)
        = (ok, tbl)"
      by (cases "insert_cancelled_rows (attendance db) cid d (get_enrolled_students db cid)")
    have c: "cancel_lecture db cid d = (ok, db\<lparr>attendance := tbl\<rparr>)"
      using f1 True l by (simp add: cancel_lecture_def Let_def)
    with assms have ok: "ok" by simp
    show ?thesis
    proof (cases "get_enrolled_students db cid")
      case Nil
      with l have "tbl = attendance db" by simp
      then have "db\<lparr>attendance := tbl\<rparr> = db" by simp
      with c ok show ?thesis by simp
    next
      case (Cons s ss)
      with l ok have "\<exists>r \<in> set tbl. course_id r = cid \<and> date r = d \<and> is_cancelled r = 1"
        by (intro insert_cancelled_rows_success [of "attendance db" cid d s ss]) simp
      then have "\<exists>r \<in> set (attendance (db\<lparr>attendance := tbl\<rparr>)).
          course_id r = cid \<and> date r = d \<and> is_cancelled r = 1" by simp
      then have "cancel_lecture (db\<lparr>attendance := tbl\<rparr>) cid d = (True, db\<lparr>attendance := tbl\<rparr>)"
        by (rule cancel_lecture_already_cancelled)
      with c show ?thesis by simp
    qed
  qed
qed

theorem cancel_lecture_idempotent_witness:
  "cancel_lecture (snd (cancel_lecture present_db 101 ''2024-03-04'')) 101 ''2024-03-04'' =
     (True, present_db\<lparr>attendance := [present_row\<lparr>status := STATUS_NA, is_cancelled := 1\<rparr>]\<rparr>)"
proof -
  have c: "cancel_lecture present_db 101 ''2024-03-04'' =
       (True, present_db\<lparr>attendance := [present_row\<lparr>status := STATUS_NA, is_cancelled := 1\<rparr>]\<rparr>)"
    by (simp add: cancel_lecture_def present_db_def present_row_def Let_def)
  then have "fst (cancel_lecture present_db 101 ''2024-03-04'')" by simp
  then show ?thesis
    using cancel_lecture_idempotent [of present_db 101 "''2024-03-04''"] by (simp add: c)
qed

text \<open>
  Claim C6. When the row of (student, course, date) has \<open>is_cancelled = 1\<close>, a write
  attempt through \<^verbatim>\<open>mark_attendance\<close> or through \<^verbatim>\<open>auto_mark_attendance\<close> returns
  \<open>False\<close> and leaves the whole database, and so the row, as it was. Since the state does
  not change, the same holds for every later attempt.
\<close>

theorem C6_cancelled_is_terminal:
  assumes "unique_attendance (attendance db)"
    and "r \<in> set (attendance db)"
    and "same_key sid cid d r"
    and "is_cancelled r = 1"
  shows "mark_attendance db sid cid d t st = (False, db)
       \<and> auto_mark_attendance db d now sid cid = (False, db)"
proof -
  have sel: "select_attendance (attendance db) sid cid d = Some r"
    using assms(1,2,3) by (rule select_attendance_unique)
  have "mark_attendance db sid cid d t st = (False, db)"
    using sel assms(4) by (simp add: mark_attendance_def)
  moreover have "auto_mark_attendance db d now sid cid = (False, db)"
    using sel assms(4) by (simp add: auto_mark_attendance_def Let_def split: option.split)
  ultimately show ?thesis by simp
qed

theorem C6_cancelled_is_terminal_witness:
  "mark_attendance cancelled_db ''S1'' 101 ''2024-03-04'' (hm 8 5) STATUS_PRESENT = (False, cancelled_db)
   \<and> auto_mark_attendance cancelled_db ''2024-03-04'' (hm 8 5) ''S1'' 101 = (False, cancelled_db)"
proof -
  have u: "unique_attendance (attendance cancelled_db)"
    by (simp add: unique_attendance_def cancelled_db_def)
  have m: "cancelled_row \<in> set (attendance cancelled_db)"
    by (simp add: cancelled_db_def)
  have k: "same_key ''S1'' 101 ''2024-03-04'' cancelled_row"
    by (simp add: same_key_def cancelled_row_def)
  have c: "is_cancelled cancelled_row = 1"
    by (simp add: cancelled_row_def)
  show ?thesis
    using C6_cancelled_is_terminal [OF u m k c] by simp
qed


section \<open>Identity matching\<close>

text \<open>
  The scan of \<^verbatim>\<open>np.argmin\<close> returns the first index that holds a minimum: the value
  there is at most every value of the list and strictly below every earlier one.
\<close>

lemma argmin_scan_first_minimum:
  assumes "best < length pre" and "v = pre ! best"
    and "\<forall>j < length pre. v \<le> pre ! j" and "\<forall>j < best. v < pre ! j"
  shows "first_minimum (pre @ xs) (argmin_scan xs (length pre) best v)"
  using assms
proof (induction xs arbitrary: pre best v)
  case Nil
  then show ?case by (simp add: first_minimum_def)
next
  case (Cons x xs)
  show ?case
  proof (cases "x < v")
    case True
    have "first_minimum ((pre @ [x]) @ xs) (argmin_scan xs (length (pre @ [x])) (length pre) x)"
    proof (rule Cons.IH)
      show "length pre < length (pre @ [x])" by simp
      show "x = (pre @ [x]) ! length pre" by simp
      show "\<forall>j < length (pre @ [x]). x \<le> (pre @ [x]) ! j"
        using True Cons.prems(3) by (auto simp: nth_append less_Suc_eq)
      show "\<forall>j < length pre. x < (pre @ [x]) ! j"
        using True Cons.prems(3) by (auto simp: nth_append)
    qed
    with True show ?thesis by simp
  next
    case False
    have "first_minimum ((pre @ [x]) @ xs) (argmin_scan xs (length (pre @ [x])) best v)"
    proof (rule Cons.IH)
      show "best < length (pre @ [x])" using Cons.prems(1) by simp
      show "v = (pre @ [x]) ! best" using Cons.prems(1,2) by (simp add: nth_append)
      show "\<forall>j < length (pre @ [x]). v \<le> (pre @ [x]) ! j"
        using False Cons.prems(3) by (auto simp: nth_append less_Suc_eq)
      show "\<forall>j < best. v < (pre @ [x]) ! j"
        using Cons.prems(1,4) by (auto simp: nth_append)
    qed
    with False show ?thesis by simp
  qed
qed

lemma np_argmin_first_minimum:
  "ds \<noteq> [] \<Longrightarrow> \<exists>i. np_argmin ds = Inr i \<and> first_minimum ds i"
proof (cases ds)
  case Nil
  assume "ds \<noteq> []"
  with Nil show ?thesis by simp
next
  case (Cons x rest)
  have "first_minimum ([x] @ rest) (argmin_scan rest (length [x]) 0 x)"
    by (rule argmin_scan_first_minimum) simp_all
  with Cons show ?thesis by (simp add: np_argmin_def)
qed

lemma first_minimum_unique:
  "first_minimum ds i \<Longrightarrow> first_minimum ds k \<Longrightarrow> i = k"
  unfolding first_minimum_def
  by (metis linorder_neqE_nat not_less)

lemma compute_distances_same_length:
  "\<forall>k \<in> set ks. length k = length q \<Longrightarrow>
   compute_distances q ks = Inr (map (\<lambda>k. 1 - dot q k) ks)"
  by (induction ks) (simp_all add: np_dot_def dot_def)

lemma cosine_similarity_unit:
  "l2_norm a = 1 \<Longrightarrow> l2_norm b = 1 \<Longrightarrow> cosine_similarity a b = dot a b"
  by (simp add: cosine_similarity_def)

lemma demo_first_minimum: "first_minimum [1, 0, 0] (Suc 0)"
  by (simp add: first_minimum_def less_Suc_eq nth_Cons')

lemma demo_norms:
  "l2_norm [1, 0] = 1" "l2_norm [0, 1] = 1"
  by (simp_all add: l2_norm_def dot_def)

lemma demo_cosines:
  "cosine_similarity [1, 0] [0, 1] = 0" "cosine_similarity [1, 0] [1, 0] = 1"
  by (simp_all add: cosine_similarity_def l2_norm_def dot_def)

text \<open>
  Claim C7. For a non-empty gallery whose encodings have the length of the query, all of
  unit length as the code makes them: the distances are 1 minus the cosine similarity,
  the chosen entry is the first one with the minimum distance, and the match is accepted
  exactly when that distance is at most \<open>FACE_RECOGNITION_TOLERANCE\<close>; otherwise the face is
  reported with the message "Unknown". An accepted identity is reported as recognized,
  except that a student who is not enrolled in the requested course is reported with
  the message "Not enrolled".
\<close>

theorem C7_identity_matching:
  assumes "known_face_encodings sys \<noteq> []"
    and "length (known_face_ids sys) = length (known_face_encodings sys)"
    and "\<forall>k \<in> set (known_face_encodings sys). length k = length q"
    and "l2_norm q = 1"
    and "\<forall>k \<in> set (known_face_encodings sys). l2_norm k = 1"
  shows "\<exists>i. first_minimum (map (\<lambda>k. 1 - cosine_similarity q k) (known_face_encodings sys)) i
     \<and> match_face db sys ref loc q =
        (if 1 - cosine_similarity q (known_face_encodings sys ! i) \<le> FACE_RECOGNITION_TOLERANCE
         then
           (if (case ref of None \<Rightarrow> False
                | Some r \<Rightarrow> \<not> is_student_enrolled_in_course db (known_face_ids sys ! i) r)
            then Inr (Unrecognized \<lparr>uf_location = loc, uf_message = ''Not enrolled''\<rparr>)
            else Inr (Recognized
                   \<lparr>rs_student_id = known_face_ids sys ! i,
                    rs_name = get_user_name db (known_face_ids sys ! i),
                    rs_confidence = 1 - (1 - cosine_similarity q (known_face_encodings sys ! i))
                                        / FACE_RECOGNITION_TOLERANCE,
                    rs_location = loc\<rparr>))
         else Inr (Unrecognized \<lparr>uf_location = loc, uf_message = ''Unknown''\<rparr>))"
proof -
  let ?encs = "known_face_encodings sys"
  let ?ds = "map (\<lambda>k. 1 - cosine_similarity q k) ?encs"
  have "map (\<lambda>k. 1 - dot q k) ?encs = ?ds"
    using assms(4,5) by (intro map_cong refl) (simp add: cosine_similarity_unit)
  with assms(3) have cd: "compute_distances q ?encs = Inr ?ds"
    by (simp add: compute_distances_same_length)
  have ne: "?ds \<noteq> []" using assms(1) by simp
  then obtain i where am: "np_argmin ?ds = Inr i" and fm: "first_minimum ?ds i"
    using np_argmin_first_minimum by blast
  from fm have i: "i < length ?encs" by (simp add: first_minimum_def)
  then have di: "?ds ! i = 1 - cosine_similarity q (?encs ! i)" by simp
  have ii: "i < length (known_face_ids sys)" using i assms(2) by simp
  have "match_face db sys ref loc q =
        (if 1 - cosine_similarity q (?encs ! i) \<le> FACE_RECOGNITION_TOLERANCE
         then
           (if (case ref of None \<Rightarrow> False
                | Some r \<Rightarrow> \<not> is_student_enrolled_in_course db (known_face_ids sys ! i) r)
            then Inr (Unrecognized \<lparr>uf_location = loc, uf_message = ''Not enrolled''\<rparr>)
            else Inr (Recognized
                   \<lparr>rs_student_id = known_face_ids sys ! i,
                    rs_name = get_user_name db (known_face_ids sys ! i),
                    rs_confidence = 1 - (1 - cosine_similarity q (?encs ! i))
                                        / FACE_RECOGNITION_TOLERANCE,
                    rs_location = loc\<rparr>))
         else Inr (Unrecognized \<lparr>uf_location = loc, uf_message = ''Unknown''\<rparr>))"
    unfolding match_face_def cd using ne am ii di
    by (cases ref) (simp_all add: Let_def)
  with fm show ?thesis by blast
qed

theorem C7_identity_matching_witness:
  "match_face demo_db demo_system (Some 101) (10, 110, 110, 10) [1, 0] =
     Inr (Recognized \<lparr>rs_student_id = ''S2'', rs_name = ''Omar'', rs_confidence = 1,
                       rs_location = (10, 110, 110, 10)\<rparr>)"
proof -
  have encs: "known_face_encodings demo_system = [[0, 1], [1, 0], [1, 0]]"
    and ids: "known_face_ids demo_system = [''S1'', ''S2'', ''S3'']"
    by (simp_all add: demo_system_def)
  have h1: "known_face_encodings demo_system \<noteq> []" by (simp add: encs)
  have h2: "length (known_face_ids demo_system) = length (known_face_encodings demo_system)"
    by (simp add: encs ids)
  have h3: "\<forall>k \<in> set (known_face_encodings demo_system). length k = length [1, 0 :: real]"
    by (simp add: encs)
  have h4: "l2_norm [1, 0] = 1" by (rule demo_norms)
  have h5: "\<forall>k \<in> set (known_face_encodings demo_system). l2_norm k = 1"
    by (simp add: encs demo_norms)
  have ds: "map (\<lambda>k. 1 - cosine_similarity [1, 0] k) (known_face_encodings demo_system) = [1, 0, 0]"
    by (simp add: encs demo_cosines)
  obtain i where fm: "first_minimum [1, 0, 0] i"
    and res: "match_face demo_db demo_system (Some 101) (10, 110, 110, 10) [1, 0] =
        (if 1 - cosine_similarity [1, 0] (known_face_encodings demo_system ! i)
              \<le> FACE_RECOGNITION_TOLERANCE
         then
           (if (case Some 101 of None \<Rightarrow> False
                | Some r \<Rightarrow> \<not> is_student_enrolled_in_course demo_db (known_face_ids demo_system ! i) r)
            then Inr (Unrecognized \<lparr>uf_location = (10, 110, 110, 10), uf_message = ''Not enrolled''\<rparr>)
            else Inr (Recognized
                   \<lparr>rs_student_id = known_face_ids demo_system ! i,
                    rs_name = get_user_name demo_db (known_face_ids demo_system ! i),
                    rs_confidence = 1 - (1 - cosine_similarity [1, 0] (known_face_encodings demo_system ! i))
                                        / FACE_RECOGNITION_TOLERANCE,
                    rs_location = (10, 110, 110, 10)\<rparr>))
         else Inr (Unrecognized \<lparr>uf_location = (10, 110, 110, 10), uf_message = ''Unknown''\<rparr>))"
    using C7_identity_matching [OF h1 h2 h3 h4 h5, of demo_db "Some 101" "(10, 110, 110, 10)"]
    unfolding ds by blast
  have i: "i = Suc 0"
    using fm demo_first_minimum by (rule first_minimum_unique)
  show ?thesis
    unfolding res i
    by (simp add: encs ids demo_cosines FACE_RECOGNITION_TOLERANCE_def
          is_student_enrolled_in_course_def get_user_name_def demo_db_def)
qed

text \<open>
  Claim C8, as stated: with an empty gallery every detected face is still reported, as
  unknown. It fails: the frame holds one face and the result holds no entry at all.
\<close>

theorem C8_counterexample:
  "known_face_encodings empty_system = []
   \<and> detectMultiScale demo_vision () = [(10, 10, 100, 100)]
   \<and> recognize_faces demo_vision demo_db empty_system () (Some 101) =
       (Inr \<lparr>recognized = [], unrecognized = []\<rparr>, empty_system)"
  by (simp add: recognize_faces_def empty_system_def demo_vision_def)

text \<open>
  Claim C8, amended. With an empty gallery \<^verbatim>\<open>recognize_faces\<close> returns the empty result
  for every frame: no face is reported, neither as recognized nor as unknown, and the
  liveness detector is not consulted.
\<close>

theorem C8_empty_gallery:
  "known_face_encodings sys = [] \<Longrightarrow>
   recognize_faces vis db sys frame ref = (Inr \<lparr>recognized = [], unrecognized = []\<rparr>, sys)"
  by (simp add: recognize_faces_def)

theorem C8_empty_gallery_witness:
  "recognize_faces demo_vision demo_db empty_system () None =
     (Inr \<lparr>recognized = [], unrecognized = []\<rparr>, empty_system)"
proof -
  have "known_face_encodings empty_system = []"
    by (simp add: empty_system_def)
  then show ?thesis by (rule C8_empty_gallery)
qed


section \<open>Liveness\<close>

lemma detect_blink_counts:
  "blink_count det \<le> blink_count (snd (detect_blink det ear))
   \<and> head_movement_count (snd (detect_blink det ear)) = head_movement_count det
   \<and> required_blinks (snd (detect_blink det ear)) = required_blinks det
   \<and> required_movements (snd (detect_blink det ear)) = required_movements det"
  by (simp add: detect_blink_def Let_def)

lemma detect_head_movement_counts:
  "head_movement_count det \<le> head_movement_count (snd (detect_head_movement det p))
   \<and> blink_count (snd (detect_head_movement det p)) = blink_count det
   \<and> required_blinks (snd (detect_head_movement det p)) = required_blinks det
   \<and> required_movements (snd (detect_head_movement det p)) = required_movements det"
  by (simp add: detect_head_movement_def Let_def split: option.split)

lemma check_liveness_counts:
  "blink_count det \<le> blink_count (snd (check_liveness vis det img lm pos))
   \<and> head_movement_count det \<le> head_movement_count (snd (check_liveness vis det img lm pos))
   \<and> required_blinks (snd (check_liveness vis det img lm pos)) = required_blinks det
   \<and> required_movements (snd (check_liveness vis det img lm pos)) = required_movements det"
proof -
  define d1 where "d1 = (case lm of None \<Rightarrow> det
      | Some l \<Rightarrow> snd (detect_blink det (calculate_eye_aspect_ratio vis l)))"
  define d2 where "d2 = (case pos of None \<Rightarrow> d1 | Some p \<Rightarrow> snd (detect_head_movement d1 p))"
  have s: "snd (check_liveness vis det img lm pos) = d2"
    unfolding d2_def d1_def check_liveness_def Let_def by simp
  have a: "blink_count det \<le> blink_count d1 \<and> head_movement_count d1 = head_movement_count det
      \<and> required_blinks d1 = required_blinks det \<and> required_movements d1 = required_movements det"
    using detect_blink_counts [of det] by (cases lm) (simp_all add: d1_def)
  have b: "head_movement_count d1 \<le> head_movement_count d2 \<and> blink_count d2 = blink_count d1
      \<and> required_blinks d2 = required_blinks d1 \<and> required_movements d2 = required_movements d1"
    using detect_head_movement_counts [of d1] by (cases pos) (simp_all add: d2_def)
  from a b show ?thesis unfolding s by simp
qed

lemma check_liveness_result:
  "fst (check_liveness vis det img lm pos) =
     ((required_blinks det \<le> blink_count (snd (check_liveness vis det img lm pos))
        \<or> required_movements det \<le> head_movement_count (snd (check_liveness vis det img lm pos)))
      \<and> analyze_texture vis img)"
proof -
  have "fst (check_liveness vis det img lm pos) =
     ((required_blinks (snd (check_liveness vis det img lm pos))
          \<le> blink_count (snd (check_liveness vis det img lm pos))
        \<or> required_movements (snd (check_liveness vis det img lm pos))
          \<le> head_movement_count (snd (check_liveness vis det img lm pos)))
      \<and> analyze_texture vis img)"
    by (simp add: check_liveness_def Let_def)
  then show ?thesis using check_liveness_counts [of det vis img lm pos] by simp
qed

lemma check_liveness_calls_counts:
  "blink_count det \<le> blink_count (check_liveness_calls vis det calls)
   \<and> head_movement_count det \<le> head_movement_count (check_liveness_calls vis det calls)
   \<and> required_blinks (check_liveness_calls vis det calls) = required_blinks det
   \<and> required_movements (check_liveness_calls vis det calls) = required_movements det"
proof (induction calls arbitrary: det)
  case Nil
  show ?case by simp
next
  case (Cons call calls)
  obtain img lm pos where call: "call = (img, lm, pos)" by (cases call)
  show ?case
    using Cons.IH [of "snd (check_liveness vis det img lm pos)"]
      check_liveness_counts [of det vis img lm pos]
    by (simp add: call)
qed

lemma check_liveness_no_landmarks:
  "snd (check_liveness vis det img None (Some p)) = snd (detect_head_movement det p)"
  by (simp add: check_liveness_def Let_def)

lemma warmup_reaches_warm_detector:
  "check_liveness_calls demo_vision new_liveness_detector warmup_calls = warm_detector"
  by (simp add: warmup_calls_def check_liveness_no_landmarks detect_head_movement_def
      new_liveness_detector_def push_history_def history_size_def position_distance_def
      warm_detector_def Let_def)

lemma recognize_face_detector:
  "snd (recognize_face vis db sys frame ref det face) =
   snd (check_liveness vis det frame None (Some face))"
  by (cases face) (simp add: recognize_face_def split: prod.split)

lemma recognize_loop_detector:
  "\<exists>n \<le> length faces.
     snd (recognize_loop (recognize_face vis db sys frame ref) det faces rs us) =
     check_liveness_calls vis det (map (\<lambda>f. (frame, None, Some f)) (take n faces))"
proof (induction faces arbitrary: det rs us)
  case Nil
  show ?case by simp
next
  case (Cons face faces)
  let ?d = "snd (check_liveness vis det frame None (Some face))"
  obtain res d' where b: "recognize_face vis db sys frame ref det face = (res, d')"
    by (cases "recognize_face vis db sys frame ref det face")
  with recognize_face_detector [of vis db sys frame ref det face] have d': "d' = ?d" by simp
  show ?case
  proof (cases res)
    case (Inl e)
    have "snd (recognize_loop (recognize_face vis db sys frame ref) det (face # faces) rs us) =
          check_liveness_calls vis det (map (\<lambda>f. (frame, None, Some f)) (take (Suc 0) (face # faces)))"
      using b Inl d' by simp
    then show ?thesis by (intro exI [of _ "Suc 0"]) simp
  next
    case (Inr outcome)
    obtain rs' us' where step:
      "recognize_loop (recognize_face vis db sys frame ref) det (face # faces) rs us =
       recognize_loop (recognize_face vis db sys frame ref) ?d faces rs' us'"
      using b Inr d' by (cases outcome) simp_all
    from Cons.IH [of ?d rs' us'] obtain n where n: "n \<le> length faces"
      and eq: "snd (recognize_loop (recognize_face vis db sys frame ref) ?d faces rs' us') =
               check_liveness_calls vis ?d (map (\<lambda>f. (frame, None, Some f)) (take n faces))"
      by blast
    have "snd (recognize_loop (recognize_face vis db sys frame ref) det (face # faces) rs us) =
          check_liveness_calls vis det (map (\<lambda>f. (frame, None, Some f)) (take (Suc n) (face # faces)))"
      using step eq by simp
    with n show ?thesis by (intro exI [of _ "Suc n"]) simp
  qed
qed

lemma recognize_faces_detector:
  "\<exists>n \<le> length (detectMultiScale vis frame).
     liveness (snd (recognize_faces vis db sys frame ref)) =
     check_liveness_calls vis (liveness sys)
       (map (\<lambda>f. (frame, None, Some f)) (take n (detectMultiScale vis frame)))"
proof (cases "known_face_encodings sys = [] \<or> detectMultiScale vis frame = []")
  case True
  then have "liveness (snd (recognize_faces vis db sys frame ref)) = liveness sys"
    by (auto simp: recognize_faces_def Let_def)
  then show ?thesis by (intro exI [of _ 0]) simp
next
  case False
  then have "liveness (snd (recognize_faces vis db sys frame ref)) =
      snd (recognize_loop (recognize_face vis db sys frame ref) (liveness sys)
             (detectMultiScale vis frame) [] [])"
    by (simp add: recognize_faces_def Let_def split: prod.split)
  then show ?thesis
    using recognize_loop_detector [of "detectMultiScale vis frame" vis db sys frame ref "liveness sys" "[]" "[]"]
    by simp
qed

text \<open>
  The loop over the faces of a frame against the report of the frame.
\<close>

lemma check_liveness_calls_append:
  "check_liveness_calls vis det (xs @ ys) =
   check_liveness_calls vis (check_liveness_calls vis det xs) ys"
  by (induction xs arbitrary: det) auto

lemma detector_before_Suc:
  "i < length faces \<Longrightarrow>
   detector_before vis det frame faces (Suc i) =
   snd (check_liveness vis (detector_before vis det frame faces i) frame None (Some (faces ! i)))"
  by (simp add: detector_before_def take_Suc_conv_app_nth check_liveness_calls_append)

lemma detector_before_requirements:
  "required_blinks (detector_before vis det frame faces i) = required_blinks det
   \<and> required_movements (detector_before vis det frame faces i) = required_movements det"
  using check_liveness_calls_counts [of det vis] by (simp add: detector_before_def)

lemma liveness_accepted_check:
  assumes "i < length faces"
  shows "fst (check_liveness vis (detector_before vis det frame faces i) frame None
            (Some (faces ! i))) = liveness_accepted vis det frame faces i"
  using check_liveness_result [of vis "detector_before vis det frame faces i" frame None
      "Some (faces ! i)"]
  by (simp add: liveness_accepted_def detector_before_Suc [OF assms] detector_before_requirements)

lemma recognize_face_report:
  "fst (recognize_face vis db sys frame ref det face) =
     (if fst (check_liveness vis det frame None (Some face))
      then match_face db sys ref (face_location face) (encode_face_region vis frame face)
      else Inr (Unrecognized \<lparr>uf_location = face_location face,
                               uf_message = ''Liveness check failed''\<rparr>))"
  by (cases face) (simp add: recognize_face_def face_location_def split: prod.split)

lemma detector_before_Cons:
  "detector_before vis det frame (face # faces) (Suc i) =
   detector_before vis (snd (check_liveness vis det frame None (Some face))) frame faces i"
  by (simp add: detector_before_def)

lemma recognize_loop_reports:
  assumes "\<forall>i < length faces.
      \<exists>out. fst (recognize_face vis db sys frame ref (detector_before vis det frame faces i)
                   (faces ! i)) = Inr out"
  shows "recognize_loop (recognize_face vis db sys frame ref) det faces rs us =
     (Inr \<lparr>recognized = rs @ recognized_reports
              (map (\<lambda>i. fst (recognize_face vis db sys frame ref
                                (detector_before vis det frame faces i) (faces ! i)))
                 [0..<length faces]),
           unrecognized = us @ unrecognized_reports
              (map (\<lambda>i. fst (recognize_face vis db sys frame ref
                                (detector_before vis det frame faces i) (faces ! i)))
                 [0..<length faces])\<rparr>,
      detector_before vis det frame faces (length faces))"
  using assms
proof (induction faces arbitrary: det rs us)
  case Nil
  show ?case by (simp add: detector_before_def)
next
  case (Cons face faces)
  let ?d = "snd (check_liveness vis det frame None (Some face))"
  let ?body = "recognize_face vis db sys frame ref"
  have d0: "detector_before vis det frame (face # faces) 0 = det"
    by (simp add: detector_before_def)
  from Cons.prems have "\<exists>out. fst (?body (detector_before vis det frame (face # faces) 0)
        ((face # faces) ! 0)) = Inr out"
    by blast
  then obtain out where out: "fst (?body det face) = Inr out"
    by (auto simp: d0)
  have b: "?body det face = (Inr out, ?d)"
    using out recognize_face_detector [of vis db sys frame ref det face]
    by (cases "?body det face") simp
  have rest: "\<forall>i < length faces.
      \<exists>out. fst (?body (detector_before vis ?d frame faces i) (faces ! i)) = Inr out"
  proof (intro allI impI)
    fix i assume "i < length faces"
    then have "Suc i < length (face # faces)" by simp
    with Cons.prems obtain o' where
      "fst (?body (detector_before vis det frame (face # faces) (Suc i)) ((face # faces) ! Suc i))
         = Inr o'"
      by blast
    then show "\<exists>out. fst (?body (detector_before vis ?d frame faces i) (faces ! i)) = Inr out"
      by (auto simp: detector_before_Cons)
  qed
  have idx: "map (\<lambda>i. fst (?body (detector_before vis det frame (face # faces) i)
                              ((face # faces) ! i))) [0..<length (face # faces)]
        = Inr out # map (\<lambda>i. fst (?body (detector_before vis ?d frame faces i) (faces ! i)))
                      [0..<length faces]"
    by (simp add: upt_conv_Cons map_Suc_upt [symmetric] d0 out detector_before_Cons
          del: upt_Suc)
  have fin: "detector_before vis det frame (face # faces) (length (face # faces))
        = detector_before vis ?d frame faces (length faces)"
    by (simp add: detector_before_Cons)
  show ?case
  proof (cases out)
    case (Recognized r)
    have "recognize_loop ?body det (face # faces) rs us =
          recognize_loop ?body ?d faces (rs @ [r]) us"
      using b Recognized by simp
    then show ?thesis
      unfolding idx fin using Cons.IH [OF rest, of "rs @ [r]" us] Recognized by simp
  next
    case (Unrecognized u)
    have "recognize_loop ?body det (face # faces) rs us =
          recognize_loop ?body ?d faces rs (us @ [u])"
      using b Unrecognized by simp
    then show ?thesis
      unfolding idx fin using Cons.IH [OF rest, of rs "us @ [u]"] Unrecognized by simp
  qed
qed

lemma match_face_returns:
  assumes "known_face_encodings sys \<noteq> []"
    and "length (known_face_ids sys) = length (known_face_encodings sys)"
    and "\<forall>k \<in> set (known_face_encodings sys). length k = length q"
  shows "\<exists>out. match_face db sys ref loc q = Inr out"
proof -
  let ?ds = "map (\<lambda>k. 1 - dot q k) (known_face_encodings sys)"
  have cd: "compute_distances q (known_face_encodings sys) = Inr ?ds"
    using assms(3) by (rule compute_distances_same_length)
  have ne: "?ds \<noteq> []" using assms(1) by simp
  then obtain i where am: "np_argmin ?ds = Inr i" and fm: "first_minimum ?ds i"
    using np_argmin_first_minimum by blast
  from fm have "i < length (known_face_encodings sys)" by (simp add: first_minimum_def)
  then have ii: "i < length (known_face_ids sys)" using assms(2) by simp
  show ?thesis
    unfolding match_face_def cd using ne am ii
    by (cases ref) (simp_all add: Let_def)
qed

lemma recognize_faces_reports:
  assumes "known_face_encodings sys \<noteq> []"
    and "length (known_face_ids sys) = length (known_face_encodings sys)"
    and "\<forall>f \<in> set (detectMultiScale vis frame). \<forall>k \<in> set (known_face_encodings sys).
           length k = length (encode_face_region vis frame f)"
  shows "recognize_faces vis db sys frame ref =
     (Inr \<lparr>recognized = recognized_reports (frame_reports vis db sys frame ref),
           unrecognized = unrecognized_reports (frame_reports vis db sys frame ref)\<rparr>,
      sys\<lparr>liveness := detector_before vis (liveness sys) frame (detectMultiScale vis frame)
                         (length (detectMultiScale vis frame))\<rparr>)"
proof (cases "detectMultiScale vis frame = []")
  case True
  then show ?thesis
    using assms(1) by (simp add: recognize_faces_def frame_reports_def detector_before_def)
next
  case False
  let ?faces = "detectMultiScale vis frame"
  let ?body = "recognize_face vis db sys frame ref"
  have rep: "fst (?body (detector_before vis (liveness sys) frame ?faces i) (?faces ! i))
             = face_report vis db sys frame ref ?faces i" if "i < length ?faces" for i
    by (simp add: recognize_face_report liveness_accepted_check [OF that] face_report_def)
  have ret: "\<exists>out. face_report vis db sys frame ref ?faces i = Inr out" if "i < length ?faces" for i
  proof (cases "liveness_accepted vis (liveness sys) frame ?faces i")
    case True
    have "\<forall>k \<in> set (known_face_encodings sys).
            length k = length (encode_face_region vis frame (?faces ! i))"
      using assms(3) that by simp
    with assms(1,2) have "\<exists>out. match_face db sys ref (face_location (?faces ! i))
        (encode_face_region vis frame (?faces ! i)) = Inr out"
      by (rule match_face_returns)
    with True show ?thesis by (simp add: face_report_def)
  next
    case False
    then show ?thesis by (simp add: face_report_def)
  qed
  have all: "\<forall>i < length ?faces.
      \<exists>out. fst (?body (detector_before vis (liveness sys) frame ?faces i) (?faces ! i)) = Inr out"
    using rep ret by simp
  have maps: "map (\<lambda>i. fst (?body (detector_before vis (liveness sys) frame ?faces i) (?faces ! i)))
                [0..<length ?faces] = frame_reports vis db sys frame ref"
    unfolding frame_reports_def by (rule map_cong [OF refl]) (simp add: rep)
  have "recognize_loop ?body (liveness sys) ?faces [] [] =
     (Inr \<lparr>recognized = recognized_reports (frame_reports vis db sys frame ref),
           unrecognized = unrecognized_reports (frame_reports vis db sys frame ref)\<rparr>,
      detector_before vis (liveness sys) frame ?faces (length ?faces))"
    using recognize_loop_reports [OF all, of "[]" "[]"] by (simp add: maps)
  then show ?thesis
    using assms(1) False by (simp add: recognize_faces_def Let_def)
qed

lemma still_first_check:
  "check_liveness pair_vision still_detector () None (Some (0, 0, 50, 50)) =
     (False, still_detector\<lparr>movement_history := [0, 0, 0, 0, 0]\<rparr>)"
  by (simp add: check_liveness_def detect_head_movement_def still_detector_def push_history_def
        history_size_def position_distance_def pair_vision_def Let_def)

lemma still_second_check:
  "check_liveness pair_vision (still_detector\<lparr>movement_history := [0, 0, 0, 0, 0]\<rparr>) () None
     (Some (3, 4, 50, 50)) = (True, warm_detector)"
  by (simp add: check_liveness_def detect_head_movement_def still_detector_def push_history_def
        history_size_def position_distance_def pair_vision_def warm_detector_def Let_def)

lemma still_match:
  "match_face demo_db still_system (Some 101) loc [1, 0] =
     Inr (Recognized \<lparr>rs_student_id = ''S2'', rs_name = ''Omar'', rs_confidence = 1,
                       rs_location = loc\<rparr>)"
  by (simp add: match_face_def still_system_def np_dot_def np_argmin_def
        FACE_RECOGNITION_TOLERANCE_def is_student_enrolled_in_course_def get_user_name_def
        demo_db_def Let_def)

text \<open>
  Claim C9. A liveness check succeeds exactly when the blink counter has reached
  \<open>required_blinks\<close> or the movement counter has reached \<open>required_movements\<close> (the counters as
  the call leaves them) and the texture analysis passes. In one round of the loop over
  the faces a face that fails the check is reported as unrecognized with the message
  "Liveness check failed", and its encoding is never compared with the gallery; a face
  that passes goes on to the matching. For the whole frame (a non-empty gallery whose
  encodings have the length of the face encodings): \<^verbatim>\<open>recognize_faces\<close> returns, in the
  order of the faces, one entry for every face; every face whose liveness is not accepted
  is in the unrecognized list with the liveness reason and in no other place, and the
  other entries are what the matching gives for the accepted faces.
\<close>

theorem C9_liveness_rule:
  "fst (check_liveness vis det img lm pos) =
     ((required_blinks det \<le> blink_count (snd (check_liveness vis det img lm pos))
        \<or> required_movements det \<le> head_movement_count (snd (check_liveness vis det img lm pos)))
      \<and> analyze_texture vis img)
   \<and> recognize_face vis db sys frame ref det (x, y, w, h) =
       (if fst (check_liveness vis det frame None (Some (x, y, w, h)))
        then (match_face db sys ref (y, x + w, y + h, x) (encode_face_region vis frame (x, y, w, h)),
              snd (check_liveness vis det frame None (Some (x, y, w, h))))
        else (Inr (Unrecognized \<lparr>uf_location = (y, x + w, y + h, x),
                                  uf_message = ''Liveness check failed''\<rparr>),
              snd (check_liveness vis det frame None (Some (x, y, w, h)))))
   \<and> (known_face_encodings sys \<noteq> []
        \<and> length (known_face_ids sys) = length (known_face_encodings sys)
        \<and> (\<forall>f \<in> set (detectMultiScale vis frame). \<forall>k \<in> set (known_face_encodings sys).
              length k = length (encode_face_region vis frame f)) \<longrightarrow>
        recognize_faces vis db sys frame ref =
          (Inr \<lparr>recognized = recognized_reports (frame_reports vis db sys frame ref),
                unrecognized = unrecognized_reports (frame_reports vis db sys frame ref)\<rparr>,
           sys\<lparr>liveness := detector_before vis (liveness sys) frame (detectMultiScale vis frame)
                              (length (detectMultiScale vis frame))\<rparr>))"
proof (intro conjI impI)
  show "fst (check_liveness vis det img lm pos) =
     ((required_blinks det \<le> blink_count (snd (check_liveness vis det img lm pos))
        \<or> required_movements det \<le> head_movement_count (snd (check_liveness vis det img lm pos)))
      \<and> analyze_texture vis img)"
    by (rule check_liveness_result)
next
  show "recognize_face vis db sys frame ref det (x, y, w, h) =
       (if fst (check_liveness vis det frame None (Some (x, y, w, h)))
        then (match_face db sys ref (y, x + w, y + h, x) (encode_face_region vis frame (x, y, w, h)),
              snd (check_liveness vis det frame None (Some (x, y, w, h))))
        else (Inr (Unrecognized \<lparr>uf_location = (y, x + w, y + h, x),
                                  uf_message = ''Liveness check failed''\<rparr>),
              snd (check_liveness vis det frame None (Some (x, y, w, h)))))"
    by (simp add: recognize_face_def split: prod.split)
next
  assume "known_face_encodings sys \<noteq> []
        \<and> length (known_face_ids sys) = length (known_face_encodings sys)
        \<and> (\<forall>f \<in> set (detectMultiScale vis frame). \<forall>k \<in> set (known_face_encodings sys).
              length k = length (encode_face_region vis frame f))"
  then show "recognize_faces vis db sys frame ref =
          (Inr \<lparr>recognized = recognized_reports (frame_reports vis db sys frame ref),
                unrecognized = unrecognized_reports (frame_reports vis db sys frame ref)\<rparr>,
           sys\<lparr>liveness := detector_before vis (liveness sys) frame (detectMultiScale vis frame)
                              (length (detectMultiScale vis frame))\<rparr>)"
    by (intro recognize_faces_reports) simp_all
qed

theorem C9_liveness_rule_witness:
  "recognize_faces pair_vision demo_db still_system () (Some 101) =
     (Inr \<lparr>recognized = [\<lparr>rs_student_id = ''S2'', rs_name = ''Omar'', rs_confidence = 1,
                           rs_location = (4, 53, 54, 3)\<rparr>],
           unrecognized = [\<lparr>uf_location = (0, 50, 50, 0),
                            uf_message = ''Liveness check failed''\<rparr>]\<rparr>,
      still_system\<lparr>liveness := warm_detector\<rparr>)"
proof -
  have faces: "detectMultiScale pair_vision () = [(0, 0, 50, 50), (3, 4, 50, 50)]"
    and enc: "encode_face_region pair_vision () f = [1, 0]" for f
    by (simp_all add: pair_vision_def)
  have sys: "known_face_encodings still_system = [[0, 1], [1, 0], [1, 0]]"
    "known_face_ids still_system = [''S1'', ''S2'', ''S3'']"
    "liveness still_system = still_detector"
    by (simp_all add: still_system_def)
  have h: "known_face_encodings still_system \<noteq> []
        \<and> length (known_face_ids still_system) = length (known_face_encodings still_system)
        \<and> (\<forall>f \<in> set (detectMultiScale pair_vision ()). \<forall>k \<in> set (known_face_encodings still_system).
              length k = length (encode_face_region pair_vision () f))"
    by (simp add: sys faces enc)
  have d1: "detector_before pair_vision still_detector () [(0, 0, 50, 50), (3, 4, 50, 50)] (Suc 0)
              = still_detector\<lparr>movement_history := [0, 0, 0, 0, 0]\<rparr>"
    by (simp add: detector_before_def still_first_check)
  have d2: "detector_before pair_vision still_detector () [(0, 0, 50, 50), (3, 4, 50, 50)] (Suc (Suc 0))
              = warm_detector"
    by (simp add: detector_before_def still_first_check still_second_check)
  have l0: "\<not> liveness_accepted pair_vision still_detector () [(0, 0, 50, 50), (3, 4, 50, 50)] 0"
    by (simp add: liveness_accepted_def d1) (simp add: still_detector_def)
  have l1: "liveness_accepted pair_vision still_detector () [(0, 0, 50, 50), (3, 4, 50, 50)] (Suc 0)"
    by (simp add: liveness_accepted_def d2) (simp add: still_detector_def warm_detector_def pair_vision_def)
  have reports: "frame_reports pair_vision demo_db still_system () (Some 101) =
      [Inr (Unrecognized \<lparr>uf_location = (0, 50, 50, 0), uf_message = ''Liveness check failed''\<rparr>),
       Inr (Recognized \<lparr>rs_student_id = ''S2'', rs_name = ''Omar'', rs_confidence = 1,
                         rs_location = (4, 53, 54, 3)\<rparr>)]"
    by (simp add: frame_reports_def faces upt_conv_Cons face_report_def sys(3) l0 l1 enc
          still_match face_location_def)
  have "recognize_faces pair_vision demo_db still_system () (Some 101) =
          (Inr \<lparr>recognized = recognized_reports (frame_reports pair_vision demo_db still_system () (Some 101)),
                unrecognized = unrecognized_reports (frame_reports pair_vision demo_db still_system () (Some 101))\<rparr>,
           still_system\<lparr>liveness := detector_before pair_vision (liveness still_system) ()
                (detectMultiScale pair_vision ()) (length (detectMultiScale pair_vision ()))\<rparr>)"
    using C9_liveness_rule [where vis = pair_vision and sys = still_system and frame = "()"
        and db = demo_db and ref = "Some 101"] h
    by blast
  then show ?thesis
    by (simp add: reports faces sys(3) d2 numeral_2_eq_2)
qed



text \<open>
  Claim C10. Over any run of \<^verbatim>\<open>check_liveness\<close> calls the two counters never decrease,
  and \<^verbatim>\<open>reset\<close> sets both to zero. Once a counter has reached its required value, every
  later check, for any face region, returns the result of the texture analysis alone.
  The system owns one detector: the detector after a frame is the detector before it,
  advanced by the checks of the faces of that frame in turn.
\<close>

theorem C10_counters_shared:
  "blink_count det \<le> blink_count (check_liveness_calls vis det calls)
   \<and> head_movement_count det \<le> head_movement_count (check_liveness_calls vis det calls)
   \<and> (required_blinks det \<le> blink_count det \<or> required_movements det \<le> head_movement_count det
        \<longrightarrow> fst (check_liveness vis (check_liveness_calls vis det calls) img lm pos)
              = analyze_texture vis img)
   \<and> blink_count (reset det) = 0 \<and> head_movement_count (reset det) = 0
   \<and> (\<exists>n \<le> length (detectMultiScale vis frame).
         liveness (snd (recognize_faces vis db sys frame ref)) =
         check_liveness_calls vis (liveness sys)
           (map (\<lambda>f. (frame, None, Some f)) (take n (detectMultiScale vis frame))))"
proof -
  let ?d = "check_liveness_calls vis det calls"
  have m: "blink_count det \<le> blink_count ?d \<and> head_movement_count det \<le> head_movement_count ?d
     \<and> required_blinks ?d = required_blinks det \<and> required_movements ?d = required_movements det"
    by (rule check_liveness_calls_counts)
  have n: "blink_count ?d \<le> blink_count (snd (check_liveness vis ?d img lm pos))
     \<and> head_movement_count ?d \<le> head_movement_count (snd (check_liveness vis ?d img lm pos))"
    using check_liveness_counts [of ?d vis img lm pos] by simp
  have "fst (check_liveness vis ?d img lm pos) = analyze_texture vis img"
    if "required_blinks det \<le> blink_count det \<or> required_movements det \<le> head_movement_count det"
    using that m n check_liveness_result [of vis ?d img lm pos] by auto
  moreover have "blink_count (reset det) = 0 \<and> head_movement_count (reset det) = 0"
    by (simp add: reset_def)
  ultimately show ?thesis using m recognize_faces_detector [of vis frame db sys ref] by blast
qed

theorem C10_counters_shared_witness:
  "check_liveness_calls demo_vision new_liveness_detector warmup_calls = warm_detector
   \<and> fst (check_liveness demo_vision
            (check_liveness_calls demo_vision warm_detector [((), None, Some (200, 200, 80, 80))])
            () None (Some (400, 10, 60, 60))) = True"
proof -
  have h: "required_blinks warm_detector \<le> blink_count warm_detector
           \<or> required_movements warm_detector \<le> head_movement_count warm_detector"
    by (simp add: warm_detector_def)
  have "fst (check_liveness demo_vision
            (check_liveness_calls demo_vision warm_detector [((), None, Some (200, 200, 80, 80))])
            () None (Some (400, 10, 60, 60))) = analyze_texture demo_vision ()"
    using C10_counters_shared [of warm_detector demo_vision
        "[((), None, Some (200, 200, 80, 80))]" "()" None "Some (400, 10, 60, 60)"] h
    by blast
  then show ?thesis
    using warmup_reaches_warm_detector by (simp add: demo_vision_def)
qed


section \<open>One row per student, course and date\<close>

lemma mark_attendance_keeps_unique:
  assumes "unique_attendance (attendance db)"
  shows "unique_attendance (attendance (snd (mark_attendance db sid cid d t st)))"
proof (cases "select_attendance (attendance db) sid cid d")
  case None
  show ?thesis
  proof (cases "insert_attendance (attendance db)
                  \<lparr>student_id = sid, course_id = cid, date = d, time = Some t,
                   second_time = None, status = st, is_cancelled = 0\<rparr>")
    case None
    with \<open>select_attendance (attendance db) sid cid d = None\<close> assms show ?thesis
      by (simp add: mark_attendance_def)
  next
    case (Some tbl)
    with assms have "unique_attendance tbl" by (rule insert_attendance_keeps_unique)
    with Some \<open>select_attendance (attendance db) sid cid d = None\<close> show ?thesis
      by (simp add: mark_attendance_def)
  qed
next
  case (Some r)
  have "unique_attendance (update_attendance (attendance db) sid cid d
          (\<lambda>r. r\<lparr>second_time := Some t, status := st\<rparr>))"
    using assms by (intro update_attendance_keeps_unique) (simp_all add: attendance_key_def)
  with Some assms show ?thesis by (simp add: mark_attendance_def)
qed

lemma auto_mark_attendance_keeps_unique:
  assumes "unique_attendance (attendance db)"
  shows "unique_attendance (attendance (snd (auto_mark_attendance db today now sid cid)))"
proof -
  have u: "unique_attendance (update_attendance (attendance db) sid cid today
          (\<lambda>r. r\<lparr>second_time := Some now\<rparr>))"
    using assms by (intro update_attendance_keeps_unique) (simp_all add: attendance_key_def)
  have i: "unique_attendance tbl"
    if "insert_attendance (attendance db) r = Some tbl" for r tbl
    using assms that by (rule insert_attendance_keeps_unique)
  show ?thesis
    using assms u i
    by (auto simp: auto_mark_attendance_def Let_def split: option.split)
qed

lemma update_partial_attendance_keeps_unique:
  assumes "unique_attendance (attendance db)"
  shows "unique_attendance (attendance (snd (update_partial_attendance db today)))"
proof -
  have "map attendance_key
          (map (\<lambda>r. if partial_row today r then r\<lparr>status := STATUS_UNAUTHORIZED_DEPARTURE\<rparr> else r) tbl)
        = map attendance_key tbl" for tbl
    by (induction tbl) (simp_all add: attendance_key_def)
  with assms show ?thesis
    by (simp add: update_partial_attendance_def unique_attendance_def del: map_map)
qed

lemma insert_cancelled_rows_keeps_unique:
  "unique_attendance tbl \<Longrightarrow> unique_attendance (snd (insert_cancelled_rows tbl cid d ss))"
proof (induction ss arbitrary: tbl)
  case Nil
  then show ?case by simp
next
  case (Cons s ss)
  show ?case
  proof (cases "insert_attendance tbl
             \<lparr>student_id = s, course_id = cid, date = d, time = None, second_time = None,
              status = STATUS_NA, is_cancelled = 1\<rparr>")
    case None
    with Cons.prems show ?thesis by simp
  next
    case (Some tbl')
    with Cons.prems have "unique_attendance tbl'" by (rule insert_attendance_keeps_unique)
    then have "unique_attendance (snd (insert_cancelled_rows tbl' cid d ss))" by (rule Cons.IH)
    with Some show ?thesis by simp
  qed
qed

lemma cancel_lecture_keeps_unique:
  assumes "unique_attendance (attendance db)"
  shows "unique_attendance (attendance (snd (cancel_lecture db cid d)))"
proof -
  have "map attendance_key
          (map (\<lambda>r. if course_id r = cid \<and> date r = d
                     then r\<lparr>status := STATUS_NA, is_cancelled := 1\<rparr> else r) tbl)
        = map attendance_key tbl" for tbl
    by (induction tbl) (simp_all add: attendance_key_def)
  then have a: "unique_attendance
          (map (\<lambda>r. if course_id r = cid \<and> date r = d
                     then r\<lparr>status := STATUS_NA, is_cancelled := 1\<rparr> else r) (attendance db))"
    using assms by (simp add: unique_attendance_def del: map_map)
  have b: "unique_attendance (snd (insert_cancelled_rows (attendance db) cid d
             (get_enrolled_students db cid)))"
    using assms by (rule insert_cancelled_rows_keeps_unique)
  show ?thesis
    using assms a b by (auto simp: cancel_lecture_def Let_def split: prod.split)
qed

lemma mark_recognized_student_keeps_unique:
  assumes "unique_attendance (attendance db)"
  shows "unique_attendance (attendance (snd (mark_recognized_student today now ref e a l s1 s2 db student)))"
proof -
  let ?sid = "rs_student_id student"
  have u: "unique_attendance (update_attendance (attendance db) ?sid ref today
          (\<lambda>r. r\<lparr>second_time := Some now\<rparr>))"
    using assms by (intro update_attendance_keeps_unique) (simp_all add: attendance_key_def)
  have i: "unique_attendance (attendance db @
             [\<lparr>student_id = ?sid, course_id = ref, date = today, time = Some now,
               second_time = None, status = st, is_cancelled = 0\<rparr>])"
    if "select_attendance (attendance db) ?sid ref today = None" for st
  proof -
    have "insert_attendance (attendance db)
            \<lparr>student_id = ?sid, course_id = ref, date = today, time = Some now,
               second_time = None, status = st, is_cancelled = 0\<rparr>
          = Some (attendance db @
             [\<lparr>student_id = ?sid, course_id = ref, date = today, time = Some now,
               second_time = None, status = st, is_cancelled = 0\<rparr>])"
      using that by (intro insert_attendance_fresh) simp
    with assms show ?thesis by (rule insert_attendance_keeps_unique)
  qed
  show ?thesis
    using assms u i
    by (auto simp: mark_recognized_student_def Let_def split: option.split)
qed

lemma mark_recognized_students_keeps_unique:
  assumes step: "\<And>db s. unique_attendance (attendance db) \<Longrightarrow>
                   unique_attendance (attendance (snd (step db s)))"
  shows "unique_attendance (attendance db) \<Longrightarrow>
         unique_attendance (attendance (snd (mark_recognized_students step db students)))"
proof (induction students arbitrary: db)
  case Nil
  then show ?case by simp
next
  case (Cons s students)
  from Cons.prems have "unique_attendance (attendance (snd (step db s)))" by (rule step)
  then have "unique_attendance (attendance
      (snd (mark_recognized_students step (snd (step db s)) students)))"
    by (rule Cons.IH)
  then show ?case by (auto split: prod.split)
qed

lemma mark_attendance_for_recognized_students_keeps_unique:
  assumes "unique_attendance (attendance db)"
  shows "unique_attendance (attendance
           (snd (mark_attendance_for_recognized_students db today now students ref)))"
proof (cases "get_course_by_id db ref")
  case None
  with assms show ?thesis by (simp add: mark_attendance_for_recognized_students_def)
next
  case (Some c)
  then show ?thesis
    using assms
    by (simp add: mark_attendance_for_recognized_students_def Let_def
          mark_recognized_students_keeps_unique mark_recognized_student_keeps_unique)
qed

text \<open>
  Every operation that writes the attendance table keeps the uniqueness constraint: a
  table with at most one row per (student, course, date) is still such a table after
  the call, whatever the call returns.
\<close>

theorem writes_keep_one_row_per_key:
  assumes "unique_attendance (attendance db)"
  shows "unique_attendance (attendance (snd (mark_attendance db sid cid d t st)))
       \<and> unique_attendance (attendance (snd (auto_mark_attendance db d now sid cid)))
       \<and> unique_attendance (attendance
            (snd (mark_attendance_for_recognized_students db d now students cid)))
       \<and> unique_attendance (attendance (snd (update_partial_attendance db d)))
       \<and> unique_attendance (attendance (snd (cancel_lecture db cid d)))"
  using assms
  by (simp add: mark_attendance_keeps_unique auto_mark_attendance_keeps_unique
        mark_attendance_for_recognized_students_keeps_unique
        update_partial_attendance_keeps_unique cancel_lecture_keeps_unique)

theorem writes_keep_one_row_per_key_witness:
  "unique_attendance (attendance (snd (mark_attendance present_db ''S1'' 101 ''2024-03-04'' (hm 8 58) STATUS_PRESENT)))
   \<and> unique_attendance (attendance (snd (auto_mark_attendance present_db ''2024-03-04'' (hm 8 58) ''S1'' 101)))
   \<and> unique_attendance (attendance
        (snd (mark_attendance_for_recognized_students present_db ''2024-03-04'' (hm 8 58) [demo_student, demo_student] 101)))
   \<and> unique_attendance (attendance (snd (update_partial_attendance present_db ''2024-03-04'')))
   \<and> unique_attendance (attendance (snd (cancel_lecture present_db 101 ''2024-03-04'')))"
proof -
  have "unique_attendance (attendance present_db)"
    by (simp add: unique_attendance_def present_db_def)
  then show ?thesis by (rule writes_keep_one_row_per_key)
qed

end
